theory Spec2Isabelle
  imports Main "HOL-Library.Multiset"
begin

section \<open>JavaScript values\<close>

text \<open>
  The request bodies of \<^verbatim>\<open>server.js\<close> are parsed JSON, and the handlers read them with
  JavaScript's dynamic operators: truthiness (\<^verbatim>\<open>!x\<close>, \<^verbatim>\<open>x || y\<close>), \<^verbatim>\<open>typeof\<close>,
  \<^verbatim>\<open>===\<close>, \<^verbatim>\<open>Number(x)\<close> and \<^verbatim>\<open>String.prototype.trim\<close>.

  Scope of the embedding: a field of a body is absent (\<open>JUndefined\<close>) or a scalar JSON value,
  and a number in a body is an integer, as \<^verbatim>\<open>JSON.parse\<close> delivers it. A string is the
  list of its code units, for the strings whose code units are all below 256. A number
  that \<^verbatim>\<open>Number\<close> computes is \<open>NaN\<close>, an integer, or \<open>NonInt\<close>: any number that is
  not an integer (a fraction or an infinity), whose value the handlers never look at.
\<close>

datatype jsnum = NaN | Num int | NonInt

datatype jv = JUndefined | JNull | JBool bool | JNum int | JStr string

text \<open>Truthiness: what \<^verbatim>\<open>if (x)\<close>, \<^verbatim>\<open>!x\<close>, \<^verbatim>\<open>!!x\<close> and \<^verbatim>\<open>x || y\<close> test.\<close>

fun truthy :: "jv \<Rightarrow> bool" where
  "truthy JUndefined = False"
| "truthy JNull = False"
| "truthy (JBool b) = b"
| "truthy (JNum n) = (n \<noteq> 0)"
| "truthy (JStr s) = (s \<noteq> [])"

fun num_truthy :: "jsnum \<Rightarrow> bool" where
  "num_truthy NaN = False"
| "num_truthy (Num n) = (n \<noteq> 0)"
| "num_truthy NonInt = True"

text \<open>
  The same test on a field that is \<^verbatim>\<open>null\<close> or a number (\<^verbatim>\<open>if (bug.completedAt)\<close>: a
  timestamp is truthy when it is there and not 0) and on one that is \<^verbatim>\<open>null\<close> or a
  string.
\<close>

fun ts_truthy :: "int option \<Rightarrow> bool" where
  "ts_truthy None = False"
| "ts_truthy (Some t) = (t \<noteq> 0)"

fun str_truthy :: "string option \<Rightarrow> bool" where
  "str_truthy None = False"
| "str_truthy (Some s) = (s \<noteq> [])"

text \<open>\<^verbatim>\<open>typeof x === 'string'\<close> and \<^verbatim>\<open>typeof x === 'number'\<close>.\<close>

fun is_string :: "jv \<Rightarrow> bool" where
  "is_string (JStr s) = True"
| "is_string v = False"

fun is_number :: "jv \<Rightarrow> bool" where
  "is_number (JNum n) = True"
| "is_number v = False"

text \<open>
  \<^verbatim>\<open>s.trim()\<close> removes white space and line terminators from both ends; the code units
  below 256 among them are these seven.
\<close>

definition is_ws :: "char \<Rightarrow> bool" where
  "is_ws c = (c \<in> set [CHR 0x09, CHR 0x0A, CHR 0x0B, CHR 0x0C, CHR 0x0D, CHR 0x20, CHR 0xA0])"

definition trim :: "string \<Rightarrow> string" where
  "trim s = rev (dropWhile is_ws (rev (dropWhile is_ws s)))"

text \<open>
  \<^verbatim>\<open>Number(x)\<close>. On \<^verbatim>\<open>undefined\<close>, \<^verbatim>\<open>null\<close>, a boolean and a number the result is
  fixed by these equations. On a string it is the language's conversion of a string to a
  number (decimal, hexadecimal, octal and binary literals, fractions, exponents,
  \<^verbatim>\<open>Infinity\<close>, rounded to a double): the handlers are embedded for any such conversion
  \<open>toNum\<close>, which they take as their first argument, so that what is proved of them holds
  for the conversion of the language.
\<close>

fun Number :: "(string \<Rightarrow> jsnum) \<Rightarrow> jv \<Rightarrow> jsnum" where
  "Number toNum JUndefined = NaN"
| "Number toNum JNull = Num 0"
| "Number toNum (JBool b) = Num (if b then 1 else 0)"
| "Number toNum (JNum n) = Num n"
| "Number toNum (JStr s) = toNum s"

text \<open>\<^verbatim>\<open>x || d\<close> on numbers.\<close>

definition num_or :: "jsnum \<Rightarrow> jsnum \<Rightarrow> jsnum" where
  "num_or x d = (if num_truthy x then x else d)"

text \<open>A parsed JSON object: a field that is not there reads as \<^verbatim>\<open>undefined\<close>.\<close>

type_synonym body = "string \<Rightarrow> jv"

definition obj :: "(string \<times> jv) list \<Rightarrow> body" where
  "obj kvs k = (case map_of kvs k of Some v \<Rightarrow> v | None \<Rightarrow> JUndefined)"


section \<open>Risk scoring (client)\<close>

text \<open>
  \<^verbatim>\<open>const riskScore = impact * likelihood\<close> and \<^verbatim>\<open>riskCategory(score)\<close>. The four bands
  carry the Dutch labels of the source: Laag (low), Gemiddeld (medium), Hoog (high) and
  Kritiek (critical).
\<close>

definition riskScore :: "int \<Rightarrow> int \<Rightarrow> int" where
  "riskScore impact likelihood = impact * likelihood"

definition riskCategory :: "int \<Rightarrow> string" where
  "riskCategory score =
     (if score \<le> 4 then ''Laag''
      else if score \<le> 8 then ''Gemiddeld''
      else if score \<le> 12 then ''Hoog''
      else ''Kritiek'')"

text \<open>The order of the bands by severity, used to state that the banding is monotonic.\<close>

definition bandRank :: "string \<Rightarrow> nat" where
  "bandRank c =
     (if c = ''Laag'' then 0
      else if c = ''Gemiddeld'' then 1
      else if c = ''Hoog'' then 2
      else 3)"


section \<open>View composition (client)\<close>

text \<open>
  The interface \<^verbatim>\<open>BugRecord\<close> of the client; an optional field is an \<open>option\<close>, and
  the field \<^verbatim>\<open>id\<close> is called \<open>rec_id\<close>. The client's numbers are the integers of the
  table's columns.
\<close>

record BugRecord =
  rec_id :: string
  ticket :: "string option"
  description :: string
  jiraLink :: "string option"
  impact :: int
  likelihood :: int
  label :: "string option"
  createdAt :: int
  completedAt :: "int option"
  reference :: bool

datatype view_tab = TabOpen | TabCompleted

datatype sort_field = SortNone | SortScore

datatype sort_dir = Asc | Desc

text \<open>
  \<^verbatim>\<open>displayedBugs\<close>: the status filter of the active tab, then the label filter
  (\<^verbatim>\<open>labelFilters.length === 0 || (b.label && labelFilters.includes(b.label))\<close>).
\<close>

definition displayedBugs :: "BugRecord list \<Rightarrow> view_tab \<Rightarrow> string list \<Rightarrow> BugRecord list" where
  "displayedBugs bugs viewTab labelFilters =
     filter (\<lambda>b.
       let statusOk = (if viewTab = TabOpen then \<not> ts_truthy (completedAt b)
                       else ts_truthy (completedAt b));
           labelOk = (length labelFilters = 0
                      \<or> (str_truthy (label b) \<and> (case label b of Some l \<Rightarrow> l \<in> set labelFilters
                                                  | None \<Rightarrow> False)))
       in statusOk \<and> labelOk) bugs"

text \<open>
  \<^verbatim>\<open>Array.prototype.sort(compare)\<close> is a stable sort (ECMAScript 2019). It is modelled
  as the insertion sort that takes the elements from the right and puts each one before the
  first element that the comparator does not order ahead of it.
\<close>

fun insert_by :: "('a \<Rightarrow> 'a \<Rightarrow> int) \<Rightarrow> 'a \<Rightarrow> 'a list \<Rightarrow> 'a list" where
  "insert_by cmp x [] = [x]"
| "insert_by cmp x (y # ys) = (if cmp x y \<le> 0 then x # y # ys else y # insert_by cmp x ys)"

definition array_sort :: "('a \<Rightarrow> 'a \<Rightarrow> int) \<Rightarrow> 'a list \<Rightarrow> 'a list" where
  "array_sort cmp xs = foldr (insert_by cmp) xs []"

text \<open>\<^verbatim>\<open>sortedBugs\<close>, computed from \<^verbatim>\<open>displayedBugs\<close> and the two sort controls.\<close>

definition sortedBugs :: "BugRecord list \<Rightarrow> sort_field \<Rightarrow> sort_dir \<Rightarrow> BugRecord list" where
  "sortedBugs displayed sortField sortDir =
     (let arr = displayed
      in if sortField = SortScore
         then array_sort (\<lambda>a b.
                let sa = impact a * likelihood a;
                    sb = impact b * likelihood b
                in if sortDir = Asc then sa - sb else sb - sa) arr
         else arr)"


text \<open>An open record with the given id, impact, likelihood and label, for concrete lists.\<close>

definition sample_rec :: "string \<Rightarrow> int \<Rightarrow> int \<Rightarrow> string option \<Rightarrow> BugRecord" where
  "sample_rec i imp lik lab =
     \<lparr> rec_id = i, ticket = None, description = ''d'', jiraLink = None,
       impact = imp, likelihood = lik, label = lab,
       createdAt = 10, completedAt = None, reference = False \<rparr>"


section \<open>The session of the client\<close>

definition SESSION_MS :: int where
  "SESSION_MS = 5 * 60 * 1000"

text \<open>
  The two entries of \<^verbatim>\<open>localStorage\<close>. The time stamp is written as
  \<^verbatim>\<open>Date.now().toString()\<close> and read back with \<^verbatim>\<open>Number(...) || 0\<close>; the model keeps the
  number.
\<close>

record localStorage =
  bugauth_user :: "string option"
  bugauth_ts :: "int option"

record auth =
  storage :: localStorage
  authUser :: "string option"
  loginError :: "string option"

definition stored_ts :: "localStorage \<Rightarrow> int" where
  "stored_ts ls = (case bugauth_ts ls of Some n \<Rightarrow> n | None \<Rightarrow> 0)"

definition removeSession :: "localStorage \<Rightarrow> localStorage" where
  "removeSession ls = ls\<lparr>bugauth_user := None, bugauth_ts := None\<rparr>"



definition handleLogout :: "auth \<Rightarrow> auth" where
  "handleLogout st = st\<lparr>storage := removeSession (storage st), authUser := None\<rparr>"

text \<open>
  The effect that runs when \<^verbatim>\<open>authUser\<close> changes: it logs out at once when the session
  time is used up, and otherwise returns the delay of the timer that will log out.
\<close>

definition autoLogout :: "int \<Rightarrow> auth \<Rightarrow> auth \<times> int option" where
  "autoLogout now st =
     (if \<not> str_truthy (authUser st) then (st, None)
      else
        let ts = stored_ts (storage st);
            elapsed = now - ts;
            remaining = SESSION_MS - elapsed
        in if remaining \<le> 0 then (handleLogout st, None) else (st, Some remaining))"


section \<open>The record store (server)\<close>

text \<open>
  A row of the table \<^verbatim>\<open>bugs\<close> as \<^verbatim>\<open>server.js\<close> writes it. \<open>None\<close> is the
  JavaScript \<^verbatim>\<open>null\<close>; \<open>jiraLink\<close> holds whatever truthy value the request carried, or
  \<open>JNull\<close>. The field \<^verbatim>\<open>id\<close> is called \<open>bug_id\<close>.
\<close>

record Bug =
  bug_id :: string
  ticket :: "string option"
  description :: string
  jiraLink :: jv
  impact :: jsnum
  likelihood :: jsnum
  label :: "string option"
  completedAt :: "int option"
  createdAt :: int
  reference :: bool

text \<open>
  The store is the table \<^verbatim>\<open>public.bugs\<close> behind the Supabase client; \<open>None\<close> is the
  server started without its client (\<^verbatim>\<open>supabase === null\<close>). The table has \<^verbatim>\<open>id\<close> as its
  primary key, and its columns \<^verbatim>\<open>impact\<close> and \<^verbatim>\<open>likelihood\<close> are
  \<^verbatim>\<open>int not null check (... between 1 and 5)\<close>: it refuses a row with an id it already
  holds, and a value of these columns that is not an integer from 1 to 5 (\<open>NaN\<close> and the
  infinities are sent as \<^verbatim>\<open>null\<close>). The failures of the network are outside the
  embedding. A storage function returns its result (\<open>None\<close> or \<open>False\<close> when it throws)
  and the store it leaves.
\<close>

type_synonym store = "Bug list option"

definition rows_of :: "store \<Rightarrow> Bug list" where
  "rows_of db = (case db of None \<Rightarrow> [] | Some rows \<Rightarrow> rows)"

definition ALLOWED_LABELS :: "string list" where
  "ALLOWED_LABELS =
     [''Betaalopdrachten'', ''Betaalverzoeken Parro'', ''Betaalverzoeken Email'', ''TSO'',
      ''Accounts / login'', ''Beheer & Instellingen'']"

text \<open>\<^verbatim>\<open>ALLOWED_LABELS.includes(x)\<close>: only a string can be in a list of strings.\<close>

fun js_includes :: "string list \<Rightarrow> jv \<Rightarrow> bool" where
  "js_includes xs (JStr s) = (s \<in> set xs)"
| "js_includes xs v = False"

text \<open>\<^verbatim>\<open>select('*').order('createdAt', { ascending: true })\<close>\<close>

definition listBugs :: "store \<Rightarrow> Bug list" where
  "listBugs db = (case db of None \<Rightarrow> [] | Some rows \<Rightarrow> sort_key createdAt rows)"

text \<open>\<^verbatim>\<open>.eq('id', id).single()\<close> is an error unless exactly one row matches.\<close>

definition single_row :: "'a list \<Rightarrow> 'a option" where
  "single_row xs = (case xs of [x] \<Rightarrow> Some x | _ \<Rightarrow> None)"

definition getBug :: "string \<Rightarrow> store \<Rightarrow> Bug option" where
  "getBug i db =
     (case db of None \<Rightarrow> None
      | Some rows \<Rightarrow> single_row (filter (\<lambda>b. bug_id b = i) rows))"

text \<open>The check of the two columns, on a value and on a row.\<close>

fun in_range :: "jsnum \<Rightarrow> bool" where
  "in_range (Num n) = (1 \<le> n \<and> n \<le> 5)"
| "in_range x = False"

definition row_ok :: "Bug \<Rightarrow> bool" where
  "row_ok r = (in_range (impact r) \<and> in_range (likelihood r))"

text \<open>\<^verbatim>\<open>insert([payload]).select().single()\<close>\<close>

definition createBug :: "Bug \<Rightarrow> store \<Rightarrow> Bug option \<times> store" where
  "createBug payload db =
     (case db of None \<Rightarrow> (None, db)
      | Some rows \<Rightarrow>
          if bug_id payload \<in> set (map bug_id rows) \<or> \<not> row_ok payload then (None, db)
          else (Some payload, Some (rows @ [payload])))"

text \<open>
  A partial field set, as \<^verbatim>\<open>update(changes)\<close> takes it: the list of the fields it
  names, each with the value to write. The table holds only rows that meet its
  constraints, so it refuses an update exactly when a value that the field set writes
  breaks one.
\<close>

datatype assignment =
    SetTicket "string option"
  | SetDescription string
  | SetJiraLink jv
  | SetImpact jsnum
  | SetLikelihood jsnum
  | SetLabel "string option"
  | SetReference bool
  | SetCompletedAt "int option"

fun assign :: "assignment \<Rightarrow> Bug \<Rightarrow> Bug" where
  "assign (SetTicket v) r = r\<lparr>ticket := v\<rparr>"
| "assign (SetDescription v) r = r\<lparr>description := v\<rparr>"
| "assign (SetJiraLink v) r = r\<lparr>jiraLink := v\<rparr>"
| "assign (SetImpact v) r = r\<lparr>impact := v\<rparr>"
| "assign (SetLikelihood v) r = r\<lparr>likelihood := v\<rparr>"
| "assign (SetLabel v) r = r\<lparr>label := v\<rparr>"
| "assign (SetReference v) r = r\<lparr>reference := v\<rparr>"
| "assign (SetCompletedAt v) r = r\<lparr>completedAt := v\<rparr>"

fun write_fields :: "assignment list \<Rightarrow> Bug \<Rightarrow> Bug" where
  "write_fields [] r = r"
| "write_fields (c # cs) r = write_fields cs (assign c r)"

fun column_ok :: "assignment \<Rightarrow> bool" where
  "column_ok (SetImpact v) = in_range v"
| "column_ok (SetLikelihood v) = in_range v"
| "column_ok c = True"

text \<open>\<^verbatim>\<open>update(changes).eq('id', id).select().single()\<close>\<close>

definition updateBug :: "string \<Rightarrow> assignment list \<Rightarrow> store \<Rightarrow> Bug option \<times> store" where
  "updateBug i changes db =
     (case db of None \<Rightarrow> (None, db)
      | Some rows \<Rightarrow>
          if \<not> list_all column_ok changes then (None, db)
          else (case single_row (filter (\<lambda>b. bug_id b = i) rows) of
                  None \<Rightarrow> (None, db)
                | Some b \<Rightarrow>
                    (Some (write_fields changes b),
                     Some (map (\<lambda>r. if bug_id r = i then write_fields changes r else r) rows))))"

definition deleteBug :: "string \<Rightarrow> store \<Rightarrow> bool \<times> store" where
  "deleteBug i db =
     (case db of None \<Rightarrow> (False, db)
      | Some rows \<Rightarrow> (True, Some (filter (\<lambda>b. bug_id b \<noteq> i) rows)))"

text \<open>\<^verbatim>\<open>delete().eq('reference', false)\<close>\<close>

definition deleteAllNonReference :: "store \<Rightarrow> bool \<times> store" where
  "deleteAllNonReference db =
     (case db of None \<Rightarrow> (False, db)
      | Some rows \<Rightarrow> (True, Some (filter (\<lambda>b. \<not> (reference b = False)) rows)))"


section \<open>The HTTP handlers (server)\<close>

text \<open>
  A token of the \<^verbatim>\<open>jsonwebtoken\<close> library, seen through its contract: the payload
  \<^verbatim>\<open>{ u }\<close>, the expiry in seconds since the epoch, and the secret that signed it.
  \<^verbatim>\<open>jwt.sign(payload, secret, { expiresIn: '8h' })\<close> stamps the token with the current
  second plus 8 hours; \<^verbatim>\<open>jwt.verify(token, secret)\<close> throws unless the signature is of
  that secret and the current second is before the expiry. \<open>Garbage\<close> is any string that
  is not a token.
\<close>

datatype token = Token (tok_u: jv) (tok_exp: int) (tok_secret: string) | Garbage string

definition jwt_sign :: "jv \<Rightarrow> string \<Rightarrow> int \<Rightarrow> int \<Rightarrow> token" where
  "jwt_sign u secret expiresIn now = Token u (now div 1000 + expiresIn) secret"

fun jwt_verify :: "token \<Rightarrow> string \<Rightarrow> int \<Rightarrow> bool" where
  "jwt_verify (Token u ex s) secret now = (s = secret \<and> now div 1000 < ex)"
| "jwt_verify (Garbage g) secret now = False"

text \<open>
  What a handler sends: \<^verbatim>\<open>res.status(n).json(...)\<close>, \<^verbatim>\<open>res.status(n).end()\<close> with the
  number of the \<^verbatim>\<open>X-Reference-Preserved\<close> header when it is set, or nothing at all when
  the handler throws outside a \<^verbatim>\<open>try\<close>.
\<close>

datatype payload =
    Error string
  | BugBody Bug
  | BugList "Bug list"
  | TokenBody token int
  | StatusBody string

datatype reply = Json nat payload | End nat "nat option" | Uncaught

text \<open>
  The configuration read from the environment: \<^verbatim>\<open>APP_USERNAME\<close>, \<^verbatim>\<open>APP_PASSWORD\<close>
  and \<^verbatim>\<open>APP_JWT_SECRET\<close> (\<open>None\<close> when the variable is not set).
\<close>

record config =
  APP_USERNAME :: "string option"
  APP_PASSWORD :: "string option"
  APP_JWT_SECRET :: "string option"

fun env :: "string option \<Rightarrow> jv" where
  "env None = JUndefined"
| "env (Some s) = JStr s"

definition JWT_SECRET :: "config \<Rightarrow> string" where
  "JWT_SECRET c =
     (case env (APP_JWT_SECRET c) of
        JStr s \<Rightarrow> if truthy (JStr s) then s else ''dev-insecure-secret''
      | _ \<Rightarrow> ''dev-insecure-secret'')"

definition EXPECT_USER :: "config \<Rightarrow> jv" where
  "EXPECT_USER c = env (APP_USERNAME c)"

definition EXPECT_PASS :: "config \<Rightarrow> jv" where
  "EXPECT_PASS c = env (APP_PASSWORD c)"

text \<open>\<^verbatim>\<open>POST /api/login\<close>; \<open>now\<close> is the clock at the request.\<close>

definition login :: "config \<Rightarrow> int \<Rightarrow> body \<Rightarrow> reply" where
  "login c now b =
     (let username = b ''username''; password = b ''password''
      in if username = EXPECT_USER c \<and> password = EXPECT_PASS c
         then Json 200 (TokenBody (jwt_sign username (JWT_SECRET c) (8 * 3600) now) (8 * 3600))
         else Json 401 (Error ''invalid credentials''))"

text \<open>\<^verbatim>\<open>x || null\<close> for a value that is a string whenever it is truthy.\<close>

fun or_null :: "jv \<Rightarrow> string option" where
  "or_null (JStr s) = (if s \<noteq> [] then Some s else None)"
| "or_null v = None"

text \<open>\<^verbatim>\<open>s.trim()\<close> for a value that is a string.\<close>

fun trim_of :: "jv \<Rightarrow> string" where
  "trim_of (JStr s) = trim s"
| "trim_of v = []"

text \<open>
  \<^verbatim>\<open>POST /api/bugs\<close>; \<open>uuid\<close> is the result of \<^verbatim>\<open>crypto.randomUUID()\<close> and \<open>now\<close> that
  of \<^verbatim>\<open>Date.now()\<close>. \<open>newBug\<close> is the object that the handler builds once the two
  checks have passed.
\<close>

definition newBug :: "(string \<Rightarrow> jsnum) \<Rightarrow> string \<Rightarrow> int \<Rightarrow> body \<Rightarrow> Bug" where
  "newBug toNum uuid now b =
     (let trimmedTicket = (if is_string (b ''ticket'') then trim_of (b ''ticket'') else [])
      in \<lparr> bug_id = uuid,
           ticket = or_null (JStr trimmedTicket),
           description = trim_of (b ''description''),
           jiraLink = (if truthy (b ''jiraLink'') then b ''jiraLink'' else JNull),
           impact = num_or (Number toNum (b ''impact'')) (Num 1),
           likelihood = num_or (Number toNum (b ''likelihood'')) (Num 1),
           label = (if truthy (b ''label'') then or_null (b ''label'') else None),
           completedAt = None,
           createdAt = now,
           reference = truthy (b ''reference'') \<rparr>)"

definition post_bugs :: "(string \<Rightarrow> jsnum) \<Rightarrow> string \<Rightarrow> int \<Rightarrow> body \<Rightarrow> store \<Rightarrow> reply \<times> store" where
  "post_bugs toNum uuid now b db =
     (if \<not> truthy (b ''description'') \<or> \<not> is_string (b ''description'')
      then (Json 400 (Error ''description required''), db)
      else if truthy (b ''label'') \<and> \<not> js_includes ALLOWED_LABELS (b ''label'')
      then (Json 400 (Error ''invalid label''), db)
      else case fst (createBug (newBug toNum uuid now b) db) of
             Some inserted \<Rightarrow> (Json 201 (BugBody inserted), snd (createBug (newBug toNum uuid now b) db))
           | None \<Rightarrow> (Json 500 (Error ''insert failed''), snd (createBug (newBug toNum uuid now b) db)))"

text \<open>\<^verbatim>\<open>GET /api/bugs\<close> and \<^verbatim>\<open>GET /api/bugs/:id\<close>\<close>

definition get_bugs :: "store \<Rightarrow> reply \<times> store" where
  "get_bugs db = (Json 200 (BugList (listBugs db)), db)"

definition get_bug :: "string \<Rightarrow> store \<Rightarrow> reply \<times> store" where
  "get_bug i db =
     (case getBug i db of
        None \<Rightarrow> (Json 404 (Error ''bug not found''), db)
      | Some bug \<Rightarrow> (Json 200 (BugBody bug), db))"

text \<open>
  \<^verbatim>\<open>PUT /api/bugs/:id\<close>. \<open>updated\<close> is the field set that the handler builds from the
  body and the row \<open>existing\<close> it has read. The handler calls
  \<^verbatim>\<open>req.body.description.trim()\<close> on any truthy description: on one that is not a string
  this is a TypeError outside the \<^verbatim>\<open>try\<close>, and no reply is sent.
\<close>

definition updated :: "(string \<Rightarrow> jsnum) \<Rightarrow> body \<Rightarrow> Bug \<Rightarrow> assignment list" where
  "updated toNum b existing =
     (let incomingTicket =
            (if is_string (b ''ticket'') then trim_of (b ''ticket'')
             else (case ticket existing of Some t \<Rightarrow> t | None \<Rightarrow> []))
      in [ SetTicket (or_null (JStr incomingTicket)),
           SetDescription (if truthy (b ''description'') then trim_of (b ''description'')
                           else description existing),
           SetJiraLink (if b ''jiraLink'' \<noteq> JUndefined
                        then (if truthy (b ''jiraLink'') then b ''jiraLink'' else JNull)
                        else jiraLink existing),
           SetImpact (if b ''impact'' \<noteq> JUndefined then Number toNum (b ''impact'')
                      else impact existing),
           SetLikelihood (if b ''likelihood'' \<noteq> JUndefined then Number toNum (b ''likelihood'')
                          else likelihood existing),
           SetLabel (if b ''label'' \<noteq> JUndefined then or_null (b ''label'')
                     else label existing),
           SetReference (if b ''reference'' \<noteq> JUndefined then truthy (b ''reference'')
                         else reference existing),
           SetCompletedAt (case b ''completedAt'' of
                             JUndefined \<Rightarrow> completedAt existing
                           | JNum n \<Rightarrow> Some n
                           | _ \<Rightarrow> None) ])"

definition put_bug :: "(string \<Rightarrow> jsnum) \<Rightarrow> string \<Rightarrow> body \<Rightarrow> store \<Rightarrow> reply \<times> store" where
  "put_bug toNum i b db =
     (if truthy (b ''label'') \<and> \<not> js_includes ALLOWED_LABELS (b ''label'')
      then (Json 400 (Error ''invalid label''), db)
      else if b ''completedAt'' \<noteq> JUndefined \<and> b ''completedAt'' \<noteq> JNull
              \<and> \<not> is_number (b ''completedAt'')
      then (Json 400 (Error ''invalid completedAt''), db)
      else case getBug i db of
        None \<Rightarrow> (Json 404 (Error ''not found''), db)
      | Some existing \<Rightarrow>
          if truthy (b ''description'') \<and> \<not> is_string (b ''description'') then (Uncaught, db)
          else (case fst (updateBug i (updated toNum b existing) db) of
                  Some result \<Rightarrow>
                    (Json 200 (BugBody result), snd (updateBug i (updated toNum b existing) db))
                | None \<Rightarrow>
                    (Json 500 (Error ''update failed''),
                     snd (updateBug i (updated toNum b existing) db))))"

text \<open>\<^verbatim>\<open>POST /api/bugs/:id/complete\<close>; \<open>now\<close> is the result of \<^verbatim>\<open>Date.now()\<close>.\<close>

definition complete_bug :: "int \<Rightarrow> string \<Rightarrow> store \<Rightarrow> reply \<times> store" where
  "complete_bug now i db =
     (case getBug i db of
        None \<Rightarrow> (Json 404 (Error ''bug not found''), db)
      | Some bug \<Rightarrow>
          if reference bug then (Json 403 (Error ''reference bug cannot be completed''), db)
          else if ts_truthy (completedAt bug) then (Json 409 (Error ''already completed''), db)
          else
            let changes = [SetCompletedAt (Some now)]
            in (case fst (updateBug i changes db) of
                  Some result \<Rightarrow> (Json 200 (BugBody result), snd (updateBug i changes db))
                | None \<Rightarrow> (Json 500 (Error ''complete failed''), snd (updateBug i changes db))))"

text \<open>\<^verbatim>\<open>DELETE /api/bugs/:id\<close>\<close>

definition delete_bug :: "string \<Rightarrow> store \<Rightarrow> reply \<times> store" where
  "delete_bug i db =
     (case getBug i db of
        None \<Rightarrow> (Json 404 (Error ''not found''), db)
      | Some bug \<Rightarrow>
          if reference bug then (Json 403 (Error ''reference bug cannot be deleted''), db)
          else if fst (deleteBug i db) then (End 204 None, snd (deleteBug i db))
          else (Json 500 (Error ''delete failed''), snd (deleteBug i db)))"

text \<open>\<^verbatim>\<open>DELETE /api/bugs\<close>\<close>

definition delete_all :: "store \<Rightarrow> reply \<times> store" where
  "delete_all db =
     (let all = listBugs db;
          preserved = filter reference all
      in if length preserved = length all
         then (Json 403 (Error ''all bugs are reference bugs; deletion aborted''), db)
         else if fst (deleteAllNonReference db)
         then (End 204 (Some (length preserved)), snd (deleteAllNonReference db))
         else (Json 500 (Error ''bulk delete failed''), snd (deleteAllNonReference db)))"

section \<open>The gate in front of the handlers (server)\<close>

text \<open>
  The \<^verbatim>\<open>Authorization\<close> header: the string \<^verbatim>\<open>'Bearer '\<close> followed by a token, or any
  other string.
\<close>

datatype authorization = Bearer token | Scheme string

definition authAllowedPath :: "string \<Rightarrow> string \<Rightarrow> bool" where
  "authAllowedPath method path =
     (if method = ''OPTIONS'' then True
      else path = ''/api/login'' \<or> path = ''/api/health'')"

text \<open>
  \<^verbatim>\<open>authMiddleware\<close>: \<open>True\<close> when it calls \<^verbatim>\<open>next()\<close>, \<open>False\<close> when it answers
  401 itself.
\<close>

definition authMiddleware :: "config \<Rightarrow> int \<Rightarrow> string \<Rightarrow> string \<Rightarrow> authorization option \<Rightarrow> bool" where
  "authMiddleware c now method path auth =
     (if authAllowedPath method path then True
      else case auth of
             None \<Rightarrow> False
           | Some (Scheme s) \<Rightarrow> False
           | Some (Bearer t) \<Rightarrow> jwt_verify t (JWT_SECRET c) now)"

text \<open>
  The routes registered after \<^verbatim>\<open>app.use('/api', authMiddleware)\<close>, each with the values
  its handler draws from the request and from the environment, and the method and path
  under which the middleware sees it (the path after the mount point \<^verbatim>\<open>/api\<close>).
\<close>

datatype operation =
    ListBugs
  | CreateBug string int body
  | GetBug string
  | UpdateBug string body
  | CompleteBug int string
  | DeleteBug string
  | DeleteAll

fun method_of :: "operation \<Rightarrow> string" where
  "method_of ListBugs = ''GET''"
| "method_of (CreateBug uuid now b) = ''POST''"
| "method_of (GetBug i) = ''GET''"
| "method_of (UpdateBug i b) = ''PUT''"
| "method_of (CompleteBug now i) = ''POST''"
| "method_of (DeleteBug i) = ''DELETE''"
| "method_of DeleteAll = ''DELETE''"

fun path_of :: "operation \<Rightarrow> string" where
  "path_of ListBugs = ''/bugs''"
| "path_of (CreateBug uuid now b) = ''/bugs''"
| "path_of (GetBug i) = ''/bugs/'' @ i"
| "path_of (UpdateBug i b) = ''/bugs/'' @ i"
| "path_of (CompleteBug now i) = ''/bugs/'' @ i @ ''/complete''"
| "path_of (DeleteBug i) = ''/bugs/'' @ i"
| "path_of DeleteAll = ''/bugs''"

fun handle :: "(string \<Rightarrow> jsnum) \<Rightarrow> operation \<Rightarrow> store \<Rightarrow> reply \<times> store" where
  "handle toNum ListBugs db = get_bugs db"
| "handle toNum (CreateBug uuid now b) db = post_bugs toNum uuid now b db"
| "handle toNum (GetBug i) db = get_bug i db"
| "handle toNum (UpdateBug i b) db = put_bug toNum i b db"
| "handle toNum (CompleteBug now i) db = complete_bug now i db"
| "handle toNum (DeleteBug i) db = delete_bug i db"
| "handle toNum DeleteAll db = delete_all db"

text \<open>A request for one of these routes, arriving at time \<open>now\<close> with the header \<open>auth\<close>.\<close>

definition api ::
  "(string \<Rightarrow> jsnum) \<Rightarrow> config \<Rightarrow> int \<Rightarrow> authorization option \<Rightarrow> operation \<Rightarrow> store
     \<Rightarrow> reply \<times> store" where
  "api toNum c now auth op db =
     (if authMiddleware c now (method_of op) (path_of op) auth then handle toNum op db
      else (Json 401 (Error ''unauthorized''), db))"

text \<open>The store after a sequence of operations, each one let through to its handler.\<close>

definition run :: "(string \<Rightarrow> jsnum) \<Rightarrow> operation list \<Rightarrow> store \<Rightarrow> store" where
  "run toNum ops db = foldl (\<lambda>d op. snd (handle toNum op d)) db ops"


text \<open>
  Two kinds of operation, relative to the record with id \<open>i\<close>: an update of that record
  whose body carries \<^verbatim>\<open>completedAt: null\<close>, and a create that draws \<open>i\<close> as its new id.
\<close>

fun clears_completedAt :: "string \<Rightarrow> operation \<Rightarrow> bool" where
  "clears_completedAt i (UpdateBug j b) = (j = i \<and> b ''completedAt'' = JNull)"
| "clears_completedAt i op = False"

fun creates_id :: "string \<Rightarrow> operation \<Rightarrow> bool" where
  "creates_id i (CreateBug uuid now b) = (uuid = i)"
| "creates_id i op = False"


text \<open>Every row with id \<open>i\<close> has its \<open>completedAt\<close> set.\<close>

definition completed_inv :: "string \<Rightarrow> store \<Rightarrow> bool" where
  "completed_inv i db = (\<forall>r\<in>set (rows_of db). bug_id r = i \<longrightarrow> completedAt r \<noteq> None)"




section \<open>Sample rows\<close>

text \<open>A row with the given id, reference flag and completion time, for concrete stores.\<close>

definition sample_row :: "string \<Rightarrow> bool \<Rightarrow> int option \<Rightarrow> Bug" where
  "sample_row i ref ct =
     \<lparr> bug_id = i, ticket = None, description = ''d'', jiraLink = JNull,
       impact = Num 3, likelihood = Num 3, label = None,
       completedAt = ct, createdAt = 10, reference = ref \<rparr>"


section \<open>Facts about the record store\<close>

lemma single_row_eq: "single_row xs = Some x \<longleftrightarrow> xs = [x]"
  by (auto simp: single_row_def split: list.splits)

lemma filter_id_unique:
  "distinct (map bug_id rows) \<Longrightarrow> b \<in> set rows \<Longrightarrow> filter (\<lambda>r. bug_id r = bug_id b) rows = [b]"
proof (induction rows)
  case Nil
  then show ?case by simp
next
  case (Cons a rows)
  show ?case
  proof (cases "a = b")
    case True
    have "bug_id b \<notin> bug_id ` set rows" using Cons.prems True by simp
    then have "\<forall>x\<in>set rows. bug_id x \<noteq> bug_id b"
      by (metis imageI)
    then have "filter (\<lambda>r. bug_id r = bug_id b) rows = []"
      by (simp add: filter_empty_conv)
    then show ?thesis using True by simp
  next
    case False
    then have in_rows: "b \<in> set rows" using Cons.prems by simp
    then have "bug_id a \<noteq> bug_id b" using Cons.prems by auto
    then show ?thesis using Cons.IH Cons.prems in_rows by simp
  qed
qed

lemma getBug_unique:
  "distinct (map bug_id rows) \<Longrightarrow> b \<in> set rows \<Longrightarrow> getBug (bug_id b) (Some rows) = Some b"
  by (simp add: getBug_def filter_id_unique single_row_def)

lemma getBug_SomeD:
  "getBug i db = Some b \<Longrightarrow> \<exists>rows. db = Some rows \<and> filter (\<lambda>r. bug_id r = i) rows = [b]"
  by (cases db) (auto simp: getBug_def single_row_eq)

lemma getBug_id: "getBug i db = Some b \<Longrightarrow> bug_id b = i"
proof -
  assume "getBug i db = Some b"
  then obtain rows where "filter (\<lambda>r. bug_id r = i) rows = [b]"
    using getBug_SomeD by blast
  then have "b \<in> set (filter (\<lambda>r. bug_id r = i) rows)" by simp
  then show ?thesis by simp
qed

lemma filter_map_keep_id:
  assumes "\<And>r. bug_id (f r) = bug_id r"
  shows "filter (\<lambda>r. bug_id r = i) (map (\<lambda>r. if bug_id r = j then f r else r) rows)
       = map (\<lambda>r. if bug_id r = j then f r else r) (filter (\<lambda>r. bug_id r = i) rows)"
  using assms by (induction rows) auto

lemma write_fields_id: "bug_id (write_fields cs r) = bug_id r"
proof (induction cs arbitrary: r)
  case Nil
  then show ?case by simp
next
  case (Cons c cs)
  have "bug_id (assign c r) = bug_id r" by (cases c) simp_all
  then show ?case using Cons.IH by simp
qed

lemma updateBug_found:
  assumes "getBug i db = Some b" and "list_all column_ok cs"
  shows "updateBug i cs db
       = (Some (write_fields cs b),
          Some (map (\<lambda>r. if bug_id r = i then write_fields cs r else r) (rows_of db)))"
proof -
  obtain rows where db: "db = Some rows" and fl: "filter (\<lambda>r. bug_id r = i) rows = [b]"
    using assms(1) getBug_SomeD by blast
  show ?thesis using assms(2) by (simp add: updateBug_def db fl single_row_def rows_of_def)
qed

lemma updateBug_refused:
  assumes "\<not> list_all column_ok cs"
  shows "updateBug i cs db = (None, db)"
  using assms by (cases db) (simp_all add: updateBug_def)

lemma getBug_after_update:
  assumes "getBug i db = Some b" and "list_all column_ok cs"
  shows "getBug i (snd (updateBug i cs db)) = Some (write_fields cs b)"
proof -
  obtain rows where db: "db = Some rows" and fl: "filter (\<lambda>r. bug_id r = i) rows = [b]"
    using assms(1) getBug_SomeD by blast
  have i: "bug_id b = i" using assms(1) by (rule getBug_id)
  have "updateBug i cs db
       = (Some (write_fields cs b),
          Some (map (\<lambda>r. if bug_id r = i then write_fields cs r else r) (rows_of db)))"
    using assms by (rule updateBug_found)
  then have "snd (updateBug i cs db)
       = Some (map (\<lambda>r. if bug_id r = i then write_fields cs r else r) rows)"
    by (simp add: db rows_of_def)
  then show ?thesis
    using i by (simp add: getBug_def filter_map_keep_id write_fields_id fl single_row_def)
qed

lemma length_filter_listBugs:
  "length (filter P (listBugs db)) = length (filter P (rows_of db))"
  by (cases db) (simp_all add: listBugs_def rows_of_def filter_sort)

lemma length_listBugs: "length (listBugs db) = length (rows_of db)"
  by (cases db) (simp_all add: listBugs_def rows_of_def)

lemma getBug_in_rows: "getBug i db = Some b \<Longrightarrow> b \<in> set (rows_of db) \<and> bug_id b = i"
proof -
  assume g: "getBug i db = Some b"
  then obtain rows where db: "db = Some rows" and fl: "filter (\<lambda>r. bug_id r = i) rows = [b]"
    using getBug_SomeD by blast
  have "b \<in> set (filter (\<lambda>r. bug_id r = i) rows)" by (simp add: fl)
  then show ?thesis by (simp add: db rows_of_def)
qed

lemma rows_after_update:
  assumes "r \<in> set (rows_of (snd (updateBug j cs db)))"
  shows "r \<in> set (rows_of db)
       \<or> (list_all column_ok cs \<and> (\<exists>r0\<in>set (rows_of db). bug_id r0 = j \<and> r = write_fields cs r0))"
proof (cases "getBug j db \<noteq> None \<and> list_all column_ok cs")
  case False
  then have "snd (updateBug j cs db) = db"
    by (cases db) (auto simp: updateBug_def getBug_def)
  then show ?thesis using assms by simp
next
  case True
  then obtain b where g: "getBug j db = Some b" and ok: "list_all column_ok cs" by auto
  have "snd (updateBug j cs db)
      = Some (map (\<lambda>r. if bug_id r = j then write_fields cs r else r) (rows_of db))"
    by (simp add: updateBug_found [OF g ok])
  then show ?thesis using assms ok by (auto simp: rows_of_def)
qed

lemma complete_bug_success:
  assumes "getBug i db = Some b" and "\<not> reference b" and "\<not> ts_truthy (completedAt b)"
  shows "fst (complete_bug now i db) = Json 200 (BugBody (b\<lparr>completedAt := Some now\<rparr>))"
    and "getBug i (snd (complete_bug now i db)) = Some (b\<lparr>completedAt := Some now\<rparr>)"
proof -
  have ok: "list_all column_ok [SetCompletedAt (Some now)]" by simp
  have u: "fst (updateBug i [SetCompletedAt (Some now)] db) = Some (b\<lparr>completedAt := Some now\<rparr>)"
    by (simp add: updateBug_found [OF assms(1) ok])
  have c: "complete_bug now i db = (Json 200 (BugBody (b\<lparr>completedAt := Some now\<rparr>)),
            snd (updateBug i [SetCompletedAt (Some now)] db))"
    using assms by (simp add: complete_bug_def Let_def u)
  show "fst (complete_bug now i db) = Json 200 (BugBody (b\<lparr>completedAt := Some now\<rparr>))"
    by (simp add: c)
  have "getBug i (snd (updateBug i [SetCompletedAt (Some now)] db))
          = Some (write_fields [SetCompletedAt (Some now)] b)"
    using assms(1) ok by (rule getBug_after_update)
  then show "getBug i (snd (complete_bug now i db)) = Some (b\<lparr>completedAt := Some now\<rparr>)"
    by (simp add: c)
qed

lemma post_bugs_store:
  "snd (post_bugs toNum uuid now b db) = db
   \<or> (row_ok (newBug toNum uuid now b)
       \<and> fst (post_bugs toNum uuid now b db) = Json 201 (BugBody (newBug toNum uuid now b))
       \<and> snd (post_bugs toNum uuid now b db) = Some (rows_of db @ [newBug toNum uuid now b]))"
  by (cases db) (simp_all add: post_bugs_def createBug_def rows_of_def)

lemma newBug_fields:
  "bug_id (newBug toNum uuid now b) = uuid"
  "completedAt (newBug toNum uuid now b) = None"
  "impact (newBug toNum uuid now b) = num_or (Number toNum (b ''impact'')) (Num 1)"
  "likelihood (newBug toNum uuid now b) = num_or (Number toNum (b ''likelihood'')) (Num 1)"
  by (simp_all add: newBug_def Let_def)

lemma updated_fields:
  "bug_id (write_fields (updated toNum b existing) r) = bug_id r"
  "createdAt (write_fields (updated toNum b existing) r) = createdAt r"
  "completedAt (write_fields (updated toNum b existing) r) =
     (case b ''completedAt'' of JUndefined \<Rightarrow> completedAt existing | JNum n \<Rightarrow> Some n | _ \<Rightarrow> None)"
  "impact (write_fields (updated toNum b existing) r) =
     (if b ''impact'' \<noteq> JUndefined then Number toNum (b ''impact'') else impact existing)"
  "likelihood (write_fields (updated toNum b existing) r) =
     (if b ''likelihood'' \<noteq> JUndefined then Number toNum (b ''likelihood'') else likelihood existing)"
  by (simp_all add: updated_def Let_def)


lemma put_bug_store:
  "snd (put_bug toNum j b db) = db
   \<or> (\<exists>existing. getBug j db = Some existing
         \<and> (b ''completedAt'' = JUndefined \<or> b ''completedAt'' = JNull \<or> is_number (b ''completedAt''))
         \<and> list_all column_ok (updated toNum b existing)
         \<and> fst (put_bug toNum j b db)
             = Json 200 (BugBody (write_fields (updated toNum b existing) existing))
         \<and> snd (put_bug toNum j b db) = snd (updateBug j (updated toNum b existing) db))"
proof (cases "getBug j db")
  case None
  then show ?thesis by (simp add: put_bug_def)
next
  case (Some existing)
  show ?thesis
  proof (cases "list_all column_ok (updated toNum b existing)")
    case False
    then have "updateBug j (updated toNum b existing) db = (None, db)"
      by (rule updateBug_refused)
    then show ?thesis by (simp add: put_bug_def Some)
  next
    case True
    have u: "fst (updateBug j (updated toNum b existing) db)
           = Some (write_fields (updated toNum b existing) existing)"
      by (simp add: updateBug_found [OF Some True])
    show ?thesis
      using True by (auto simp: put_bug_def Some u)
  qed
qed


section \<open>Operations that keep a completion time\<close>

lemma inv_post:
  assumes "completed_inv i db" and "uuid \<noteq> i"
  shows "completed_inv i (snd (post_bugs toNum uuid now b db))"
  using post_bugs_store [of toNum uuid now b db] assms
  by (auto simp: completed_inv_def rows_of_def newBug_fields)

lemma inv_complete:
  assumes "completed_inv i db"
  shows "completed_inv i (snd (complete_bug now j db))"
proof -
  have "snd (complete_bug now j db) = db
      \<or> snd (complete_bug now j db) = snd (updateBug j [SetCompletedAt (Some now)] db)"
    by (simp add: complete_bug_def Let_def split: option.splits)
  then show ?thesis
  proof
    assume "snd (complete_bug now j db) = db"
    then show ?thesis using assms by simp
  next
    assume e: "snd (complete_bug now j db) = snd (updateBug j [SetCompletedAt (Some now)] db)"
    show ?thesis
      unfolding completed_inv_def e
    proof (intro ballI impI)
      fix r assume "r \<in> set (rows_of (snd (updateBug j [SetCompletedAt (Some now)] db)))"
        and "bug_id r = i"
      then show "completedAt r \<noteq> None"
        using rows_after_update [of r j "[SetCompletedAt (Some now)]" db] assms
        by (auto simp: completed_inv_def)
    qed
  qed
qed

lemma inv_delete:
  assumes "completed_inv i db"
  shows "completed_inv i (snd (delete_bug j db))"
proof -
  have "set (rows_of (snd (delete_bug j db))) \<subseteq> set (rows_of db)"
    by (cases db) (auto simp: delete_bug_def deleteBug_def rows_of_def split: option.splits)
  then show ?thesis using assms by (auto simp: completed_inv_def)
qed

lemma inv_delete_all:
  assumes "completed_inv i db"
  shows "completed_inv i (snd (delete_all db))"
proof -
  have "set (rows_of (snd (delete_all db))) \<subseteq> set (rows_of db)"
    by (cases db) (auto simp: delete_all_def Let_def deleteAllNonReference_def rows_of_def)
  then show ?thesis using assms by (auto simp: completed_inv_def)
qed

lemma inv_put:
  assumes "completed_inv i db" and "\<not> (j = i \<and> b ''completedAt'' = JNull)"
  shows "completed_inv i (snd (put_bug toNum j b db))"
proof -
  consider (same) "snd (put_bug toNum j b db) = db"
    | (upd) existing where "getBug j db = Some existing"
        "b ''completedAt'' = JUndefined \<or> b ''completedAt'' = JNull \<or> is_number (b ''completedAt'')"
        "snd (put_bug toNum j b db) = snd (updateBug j (updated toNum b existing) db)"
    using put_bug_store [of toNum j b db] by blast
  then show ?thesis
  proof cases
    case same
    then show ?thesis using assms by simp
  next
    case upd
    have ex: "existing \<in> set (rows_of db)" "bug_id existing = j"
      using getBug_in_rows [OF upd(1)] by simp_all
    show ?thesis
      unfolding completed_inv_def upd(3)
    proof (intro ballI impI)
      fix r assume r: "r \<in> set (rows_of (snd (updateBug j (updated toNum b existing) db)))"
        and ri: "bug_id r = i"
      from rows_after_update [OF r]
      show "completedAt r \<noteq> None"
      proof
        assume "r \<in> set (rows_of db)"
        then show ?thesis using assms(1) ri by (auto simp: completed_inv_def)
      next
        assume "list_all column_ok (updated toNum b existing)
          \<and> (\<exists>r0\<in>set (rows_of db). bug_id r0 = j \<and> r = write_fields (updated toNum b existing) r0)"
        then obtain r0 where r0: "r0 \<in> set (rows_of db)" "bug_id r0 = j"
            "r = write_fields (updated toNum b existing) r0"
          by blast
        have ji: "j = i" using r0 ri by (simp add: updated_fields)
        then have nn: "b ''completedAt'' \<noteq> JNull" using assms(2) by simp
        have "completedAt existing \<noteq> None"
          using assms(1) ex ji by (auto simp: completed_inv_def)
        then show ?thesis
          using upd(2) nn r0(3) by (cases "b ''completedAt''") (simp_all add: updated_fields)
      qed
    qed
  qed
qed

lemma inv_step:
  assumes "completed_inv i db" and "\<not> clears_completedAt i op" and "\<not> creates_id i op"
  shows "completed_inv i (snd (handle toNum op db))"
proof (cases op)
  case ListBugs
  then show ?thesis using assms by (simp add: get_bugs_def)
next
  case (CreateBug uuid now b)
  then show ?thesis using assms by (simp add: inv_post)
next
  case (GetBug j)
  then show ?thesis using assms by (simp add: get_bug_def split: option.splits)
next
  case (UpdateBug j b)
  then show ?thesis using assms by (simp add: inv_put)
next
  case (CompleteBug now j)
  then show ?thesis using assms by (simp add: inv_complete)
next
  case (DeleteBug j)
  then show ?thesis using assms by (simp add: inv_delete)
next
  case DeleteAll
  then show ?thesis using assms by (simp add: inv_delete_all)
qed

lemma inv_run:
  assumes "completed_inv i db" and "\<forall>op\<in>set ops. \<not> clears_completedAt i op \<and> \<not> creates_id i op"
  shows "completed_inv i (run toNum ops db)"
  using assms
proof (induction ops arbitrary: db)
  case Nil
  then show ?case by (simp add: run_def)
next
  case (Cons op ops)
  have "completed_inv i (snd (handle toNum op db))"
    using Cons.prems by (simp add: inv_step)
  then have "completed_inv i (run toNum ops (snd (handle toNum op db)))"
    using Cons.IH Cons.prems by simp
  then show ?case by (simp add: run_def)
qed

lemma post_bugs_created:
  assumes "fst (post_bugs toNum uuid now b db) = Json 201 (BugBody r)"
  shows "r = newBug toNum uuid now b \<and> row_ok r
       \<and> snd (post_bugs toNum uuid now b db) = Some (rows_of db @ [r])"
  using assms
  by (cases db) (auto simp: post_bugs_def createBug_def rows_of_def split: if_splits)

lemma put_bug_updated:
  assumes "fst (put_bug toNum i b db) = Json 200 (BugBody r)"
  shows "\<exists>existing. getBug i db = Some existing
           \<and> list_all column_ok (updated toNum b existing)
           \<and> r = write_fields (updated toNum b existing) existing
           \<and> getBug i (snd (put_bug toNum i b db)) = Some r"
proof (cases "getBug i db")
  case None
  then have "fst (put_bug toNum i b db) \<noteq> Json 200 (BugBody r)"
    by (simp add: put_bug_def)
  then show ?thesis using assms by simp
next
  case (Some existing)
  show ?thesis
  proof (cases "list_all column_ok (updated toNum b existing)")
    case False
    then have "updateBug i (updated toNum b existing) db = (None, db)"
      by (rule updateBug_refused)
    then have "fst (put_bug toNum i b db) \<noteq> Json 200 (BugBody r)"
      by (simp add: put_bug_def Some)
    then show ?thesis using assms by simp
  next
    case True
    have u: "fst (updateBug i (updated toNum b existing) db)
           = Some (write_fields (updated toNum b existing) existing)"
      by (simp add: updateBug_found [OF Some True])
    have r: "r = write_fields (updated toNum b existing) existing"
      and s: "snd (put_bug toNum i b db) = snd (updateBug i (updated toNum b existing) db)"
      using assms by (auto simp: put_bug_def Some u split: if_splits)
    have "getBug i (snd (updateBug i (updated toNum b existing) db))
        = Some (write_fields (updated toNum b existing) existing)"
      using Some True by (rule getBug_after_update)
    then show ?thesis using Some True r s by simp
  qed
qed

section \<open>Operations that keep the two columns in range\<close>














section \<open>Facts about the gate\<close>




section \<open>Properties of the risk scoring\<close>

lemma score_bounds:
  assumes "1 \<le> i" "i \<le> 5" "1 \<le> l" "l \<le> (5::int)"
  shows "1 \<le> i * l \<and> i * l \<le> 25"
proof -
  have "1 * 1 \<le> i * l" using assms by (intro mult_mono) auto
  moreover have "i * l \<le> 5 * 5" using assms by (intro mult_mono) auto
  ultimately show ?thesis by simp
qed

lemma bandRank_mono: "s \<le> t \<Longrightarrow> bandRank (riskCategory s) \<le> bandRank (riskCategory t)"
  by (simp add: riskCategory_def bandRank_def)

text \<open>
  Claim C1. For all impact and likelihood in 1..5 the risk score is impact times likelihood
  and lies in 1..25; the category is the one of the four bands that the score falls in
  (Laag up to 4, Gemiddeld for 5..8, Hoog for 9..12, Kritiek from 13 on), the four bands
  being distinct; and a larger score never gets a lower band.
\<close>

theorem risk_scoring_bands:
  assumes "1 \<le> i" "i \<le> 5" "1 \<le> l" "l \<le> 5"
  shows "riskScore i l = i * l
       \<and> 1 \<le> riskScore i l \<and> riskScore i l \<le> 25
       \<and> riskCategory (riskScore i l) \<in> {''Laag'', ''Gemiddeld'', ''Hoog'', ''Kritiek''}
       \<and> (riskCategory (riskScore i l) = ''Laag'' \<longleftrightarrow> riskScore i l \<le> 4)
       \<and> (riskCategory (riskScore i l) = ''Gemiddeld'' \<longleftrightarrow>
            5 \<le> riskScore i l \<and> riskScore i l \<le> 8)
       \<and> (riskCategory (riskScore i l) = ''Hoog'' \<longleftrightarrow>
            9 \<le> riskScore i l \<and> riskScore i l \<le> 12)
       \<and> (riskCategory (riskScore i l) = ''Kritiek'' \<longleftrightarrow> 13 \<le> riskScore i l)
       \<and> (\<forall>s t. s \<le> t \<longrightarrow> bandRank (riskCategory s) \<le> bandRank (riskCategory t))"
proof -
  have b: "1 \<le> i * l \<and> i * l \<le> 25"
    using assms by (rule score_bounds)
  have c: "riskCategory s \<in> {''Laag'', ''Gemiddeld'', ''Hoog'', ''Kritiek''}" for s
    by (simp add: riskCategory_def)
  have d: "(riskCategory s = ''Laag'' \<longleftrightarrow> s \<le> 4)
         \<and> (riskCategory s = ''Gemiddeld'' \<longleftrightarrow> 5 \<le> s \<and> s \<le> 8)
         \<and> (riskCategory s = ''Hoog'' \<longleftrightarrow> 9 \<le> s \<and> s \<le> 12)
         \<and> (riskCategory s = ''Kritiek'' \<longleftrightarrow> 13 \<le> s)" for s
    by (simp add: riskCategory_def)
  show ?thesis
    using b c d bandRank_mono by (simp add: riskScore_def)
qed

theorem risk_scoring_bands_witness:
  "riskScore 3 4 = 12 \<and> 1 \<le> riskScore 3 4 \<and> riskScore 3 4 \<le> 25
   \<and> riskCategory (riskScore 3 4) = ''Hoog''
   \<and> bandRank (riskCategory 4) \<le> bandRank (riskCategory (riskScore 3 4))"
proof -
  have h: "(1::int) \<le> 3" "(3::int) \<le> 5" "(1::int) \<le> 4" "(4::int) \<le> 5"
    by simp_all
  have t: "riskScore 3 4 = 3 * 4 \<and> 1 \<le> riskScore 3 4 \<and> riskScore 3 4 \<le> 25
      \<and> (riskCategory (riskScore 3 4) = ''Hoog'' \<longleftrightarrow> 9 \<le> riskScore 3 4 \<and> riskScore 3 4 \<le> 12)
      \<and> (\<forall>s t. s \<le> t \<longrightarrow> bandRank (riskCategory s) \<le> bandRank (riskCategory t))"
    using risk_scoring_bands [OF h] by blast
  have s: "riskScore 3 4 = 12" using t by simp
  have m: "bandRank (riskCategory 4) \<le> bandRank (riskCategory 12)"
    using t by simp
  have c: "riskCategory 12 = ''Hoog''" using t unfolding s by simp
  show ?thesis using t m c unfolding s by simp
qed

section \<open>Validation on create\<close>

text \<open>
  Claim C2 says that a description that is empty after trimming is rejected, a description
  of blanks in particular. The handler tests the description before it trims it
  (\<^verbatim>\<open>!description\<close>), and a string of blanks is truthy: the request is answered 201 and the
  record is stored with the empty description, whatever the conversion of strings to
  numbers is (the request has no string for it to read).
\<close>

theorem create_whitespace_description:
  "post_bugs toNum ''a'' 1000 (obj [(''description'', JStr ''  '')]) (Some [])
     = (Json 201 (BugBody \<lparr> bug_id = ''a'', ticket = None, description = '''', jiraLink = JNull,
              impact = Num 1, likelihood = Num 1, label = None,
              completedAt = None, createdAt = 1000, reference = False \<rparr>),
        Some [\<lparr> bug_id = ''a'', ticket = None, description = '''', jiraLink = JNull,
              impact = Num 1, likelihood = Num 1, label = None,
              completedAt = None, createdAt = 1000, reference = False \<rparr>])"
  by (simp add: post_bugs_def newBug_def createBug_def row_ok_def num_or_def Let_def obj_def
      trim_def is_ws_def)

theorem create_whitespace_description_witness:
  "trim ''  '' = '''' 
   \<and> fst (post_bugs (\<lambda>s. NaN) ''a'' 1000 (obj [(''description'', JStr ''  '')]) (Some []))
       \<noteq> Json 400 (Error ''description required'')
   \<and> map description (rows_of (snd (post_bugs (\<lambda>s. NaN) ''a'' 1000 (obj [(''description'', JStr ''  '')]) (Some []))))
       = ['''']"
  using create_whitespace_description [of "\<lambda>s. NaN"] by (simp add: rows_of_def trim_def is_ws_def)

text \<open>
  What the handler does check: a create is answered 400 exactly when the description is
  not a non-empty string (tested before trimming) or the label is truthy and not one of
  the six allowed labels. A description with text is stored trimmed, and empty optional
  fields are stored as \<^verbatim>\<open>null\<close>.
\<close>

lemma post_bugs_rejects:
  "(\<exists>e. fst (post_bugs toNum uuid now b db) = Json 400 (Error e)) \<longleftrightarrow>
     \<not> (\<exists>s. b ''description'' = JStr s \<and> s \<noteq> [])
     \<or> (truthy (b ''label'') \<and> \<not> js_includes ALLOWED_LABELS (b ''label''))"
proof -
  have d: "(\<not> truthy v \<or> \<not> is_string v) \<longleftrightarrow> \<not> (\<exists>s. v = JStr s \<and> s \<noteq> [])" for v
    by (cases v) simp_all
  have "(\<exists>e. fst (post_bugs toNum uuid now b db) = Json 400 (Error e)) \<longleftrightarrow>
          (\<not> truthy (b ''description'') \<or> \<not> is_string (b ''description''))
          \<or> (truthy (b ''label'') \<and> \<not> js_includes ALLOWED_LABELS (b ''label''))"
    by (cases db) (auto simp: post_bugs_def createBug_def)
  then show ?thesis unfolding d .
qed

lemma post_bugs_trims:
  "post_bugs toNum ''a'' 1000 (obj [(''description'', JStr ''  fix X  ''), (''ticket'', JStr '' ''),
                              (''jiraLink'', JStr ''''), (''label'', JStr '''')]) (Some [])
     = (Json 201 (BugBody \<lparr> bug_id = ''a'', ticket = None, description = ''fix X'', jiraLink = JNull,
              impact = Num 1, likelihood = Num 1, label = None,
              completedAt = None, createdAt = 1000, reference = False \<rparr>),
        Some [\<lparr> bug_id = ''a'', ticket = None, description = ''fix X'', jiraLink = JNull,
              impact = Num 1, likelihood = Num 1, label = None,
              completedAt = None, createdAt = 1000, reference = False \<rparr>])"
  by (simp add: post_bugs_def newBug_def createBug_def row_ok_def num_or_def Let_def obj_def
      trim_def is_ws_def ALLOWED_LABELS_def)

lemma post_bugs_label:
  "fst (post_bugs toNum ''a'' 1000 (obj [(''description'', JStr ''x''), (''label'', JStr ''Not A Real Label'')])
          (Some []))
     = Json 400 (Error ''invalid label'')"
  by (simp add: post_bugs_def newBug_def createBug_def row_ok_def num_or_def Let_def obj_def
      trim_def is_ws_def ALLOWED_LABELS_def)


section \<open>Reference records\<close>

text \<open>
  Claim C3. A record of the store whose \<open>reference\<close> flag is set cannot be completed and
  cannot be deleted: whatever its other fields hold, both requests are answered 403
  (Forbidden) and the store stays as it was. The rows of the table have distinct ids, the
  id being its primary key.
\<close>

theorem reference_record_protected:
  assumes "distinct (map bug_id rows)" and "b \<in> set rows" and "reference b"
  shows "complete_bug now (bug_id b) (Some rows)
           = (Json 403 (Error ''reference bug cannot be completed''), Some rows)
       \<and> delete_bug (bug_id b) (Some rows)
           = (Json 403 (Error ''reference bug cannot be deleted''), Some rows)"
  using assms by (simp add: complete_bug_def delete_bug_def getBug_unique)

theorem reference_record_protected_witness:
  "complete_bug 99 ''r1'' (Some [sample_row ''b1'' False None, sample_row ''r1'' True (Some 50)])
     = (Json 403 (Error ''reference bug cannot be completed''),
        Some [sample_row ''b1'' False None, sample_row ''r1'' True (Some 50)])
   \<and> delete_bug ''r1'' (Some [sample_row ''b1'' False None, sample_row ''r1'' True (Some 50)])
     = (Json 403 (Error ''reference bug cannot be deleted''),
        Some [sample_row ''b1'' False None, sample_row ''r1'' True (Some 50)])"
proof -
  let ?rows = "[sample_row ''b1'' False None, sample_row ''r1'' True (Some 50)]"
  have d: "distinct (map bug_id ?rows)" by (simp add: sample_row_def)
  have m: "sample_row ''r1'' True (Some 50) \<in> set ?rows" by simp
  have r: "reference (sample_row ''r1'' True (Some 50))" by (simp add: sample_row_def)
  have i: "bug_id (sample_row ''r1'' True (Some 50)) = ''r1''" by (simp add: sample_row_def)
  show ?thesis using reference_record_protected [OF d m r, of 99] unfolding i by simp
qed


section \<open>Completion\<close>

text \<open>
  Claim C4, as the handler has it. Completing is answered 404 (NotFound) when the store has
  no record of that id, 403 (Forbidden) when the record is a reference record, and 409
  (Conflict) when its \<open>completedAt\<close> holds a time other than 0; on a record whose
  \<open>completedAt\<close> is absent or 0 it succeeds and sets \<open>completedAt\<close> to the current time.
  Completing the same record twice, the clock not being 0 at the first call: the first call
  succeeds, the second is answered 409 and leaves the store as the first left it.
\<close>

theorem complete_bug_outcomes:
  "(getBug i db = None \<longrightarrow>
      complete_bug now i db = (Json 404 (Error ''bug not found''), db))
 \<and> (\<forall>b. getBug i db = Some b \<and> reference b \<longrightarrow>
      complete_bug now i db = (Json 403 (Error ''reference bug cannot be completed''), db))
 \<and> (\<forall>b t. getBug i db = Some b \<and> \<not> reference b \<and> completedAt b = Some t \<and> t \<noteq> 0 \<longrightarrow>
      complete_bug now i db = (Json 409 (Error ''already completed''), db))
 \<and> (\<forall>b. getBug i db = Some b \<and> \<not> reference b \<and> (completedAt b = None \<or> completedAt b = Some 0) \<longrightarrow>
      fst (complete_bug now i db) = Json 200 (BugBody (b\<lparr>completedAt := Some now\<rparr>))
    \<and> getBug i (snd (complete_bug now i db)) = Some (b\<lparr>completedAt := Some now\<rparr>)
    \<and> (now \<noteq> 0 \<longrightarrow>
         complete_bug later i (snd (complete_bug now i db))
           = (Json 409 (Error ''already completed''), snd (complete_bug now i db))))"
proof (intro conjI allI impI)
  assume "getBug i db = None"
  then show "complete_bug now i db = (Json 404 (Error ''bug not found''), db)"
    by (simp add: complete_bug_def)
next
  fix b assume "getBug i db = Some b \<and> reference b"
  then show "complete_bug now i db = (Json 403 (Error ''reference bug cannot be completed''), db)"
    by (simp add: complete_bug_def)
next
  fix b t assume "getBug i db = Some b \<and> \<not> reference b \<and> completedAt b = Some t \<and> t \<noteq> 0"
  then show "complete_bug now i db = (Json 409 (Error ''already completed''), db)"
    by (simp add: complete_bug_def)
next
  fix b
  assume h: "getBug i db = Some b \<and> \<not> reference b \<and> (completedAt b = None \<or> completedAt b = Some 0)"
  then have g: "getBug i db = Some b" and open_b: "\<not> ts_truthy (completedAt b)" and nr: "\<not> reference b"
    by auto
  show "fst (complete_bug now i db) = Json 200 (BugBody (b\<lparr>completedAt := Some now\<rparr>))"
    using g nr open_b by (rule complete_bug_success)
  show g'': "getBug i (snd (complete_bug now i db)) = Some (b\<lparr>completedAt := Some now\<rparr>)"
    using g nr open_b by (rule complete_bug_success)
  assume "now \<noteq> 0"
  then show "complete_bug later i (snd (complete_bug now i db))
           = (Json 409 (Error ''already completed''), snd (complete_bug now i db))"
    using g'' nr by (simp add: complete_bug_def)
qed

theorem complete_bug_outcomes_witness:
  "complete_bug 2000 ''zz'' (Some [sample_row ''b1'' False None])
     = (Json 404 (Error ''bug not found''), Some [sample_row ''b1'' False None])
   \<and> complete_bug 2000 ''b1'' (Some [sample_row ''b1'' False (Some 70)])
     = (Json 409 (Error ''already completed''), Some [sample_row ''b1'' False (Some 70)])
   \<and> fst (complete_bug 2000 ''b1'' (Some [sample_row ''b1'' False None]))
     = Json 200 (BugBody (sample_row ''b1'' False (Some 2000)))
   \<and> complete_bug 3000 ''b1'' (snd (complete_bug 2000 ''b1'' (Some [sample_row ''b1'' False None])))
     = (Json 409 (Error ''already completed''),
        snd (complete_bug 2000 ''b1'' (Some [sample_row ''b1'' False None])))"
proof -
  have g0: "getBug ''zz'' (Some [sample_row ''b1'' False None]) = None"
    by (simp add: getBug_def single_row_def sample_row_def)
  have g1: "getBug ''b1'' (Some [sample_row ''b1'' False d]) = Some (sample_row ''b1'' False d)" for d
    by (simp add: getBug_def single_row_def sample_row_def)
  have f: "\<not> reference (sample_row ''b1'' False d)" "completedAt (sample_row ''b1'' False d) = d" for d
    by (simp_all add: sample_row_def)
  have u: "(sample_row ''b1'' False None)\<lparr>completedAt := Some 2000\<rparr> = sample_row ''b1'' False (Some 2000)"
    by (simp add: sample_row_def)
  have a: "complete_bug 2000 ''zz'' (Some [sample_row ''b1'' False None])
     = (Json 404 (Error ''bug not found''), Some [sample_row ''b1'' False None])"
    using complete_bug_outcomes [of "''zz''" "Some [sample_row ''b1'' False None]" 2000] g0 by simp
  have b: "complete_bug 2000 ''b1'' (Some [sample_row ''b1'' False (Some 70)])
     = (Json 409 (Error ''already completed''), Some [sample_row ''b1'' False (Some 70)])"
    using complete_bug_outcomes [of "''b1''" "Some [sample_row ''b1'' False (Some 70)]" 2000] g1 f by simp
  have c: "fst (complete_bug 2000 ''b1'' (Some [sample_row ''b1'' False None]))
     = Json 200 (BugBody (sample_row ''b1'' False (Some 2000)))
   \<and> complete_bug 3000 ''b1'' (snd (complete_bug 2000 ''b1'' (Some [sample_row ''b1'' False None])))
     = (Json 409 (Error ''already completed''),
        snd (complete_bug 2000 ''b1'' (Some [sample_row ''b1'' False None])))"
    using complete_bug_outcomes [of "''b1''" "Some [sample_row ''b1'' False None]" 2000 3000] g1 f u
    by simp
  show ?thesis using a b c by simp
qed

text \<open>
  The claim as it was stated gives 409 for every record whose \<open>completedAt\<close> is set. The
  handler tests \<^verbatim>\<open>if (bug.completedAt)\<close>, and the time 0 is not truthy: a record that an
  update has given \<^verbatim>\<open>completedAt: 0\<close> is completed again. (No field of these two
  requests is a string that \<^verbatim>\<open>Number\<close> reads, so the conversion of strings plays no
  part.)
\<close>

theorem complete_bug_zero_timestamp_counterexample:
  "getBug ''a'' (run (\<lambda>s. NaN) [CreateBug ''a'' 1000 (obj [(''description'', JStr ''x'')]),
                      UpdateBug ''a'' (obj [(''completedAt'', JNum 0)])] (Some []))
     = Some \<lparr> bug_id = ''a'', ticket = None, description = ''x'', jiraLink = JNull,
              impact = Num 1, likelihood = Num 1, label = None,
              completedAt = Some 0, createdAt = 1000, reference = False \<rparr>
   \<and> fst (complete_bug 2000 ''a''
           (run (\<lambda>s. NaN) [CreateBug ''a'' 1000 (obj [(''description'', JStr ''x'')]),
                 UpdateBug ''a'' (obj [(''completedAt'', JNum 0)])] (Some [])))
     = Json 200 (BugBody \<lparr> bug_id = ''a'', ticket = None, description = ''x'', jiraLink = JNull,
              impact = Num 1, likelihood = Num 1, label = None,
              completedAt = Some 2000, createdAt = 1000, reference = False \<rparr>)"
  by code_simp


section \<open>Bulk delete\<close>

text \<open>
  Claim C5. The bulk delete is answered 403 (Forbidden), and deletes nothing, exactly when
  the reference records are all the records there are; otherwise it deletes every record
  that is not a reference record, keeps every reference record, and reports the number of
  reference records kept in the header of its 204 reply.
\<close>

theorem bulk_delete_rule:
  "(length (filter reference (rows_of db)) = length (rows_of db) \<longrightarrow>
      delete_all db = (Json 403 (Error ''all bugs are reference bugs; deletion aborted''), db))
 \<and> (length (filter reference (rows_of db)) \<noteq> length (rows_of db) \<longrightarrow>
      delete_all db = (End 204 (Some (length (filter reference (rows_of db)))),
                       Some (filter reference (rows_of db))))"
proof (cases db)
  case None
  then show ?thesis by (simp add: delete_all_def Let_def rows_of_def listBugs_def)
next
  case (Some rows)
  then show ?thesis
    by (simp add: delete_all_def Let_def length_filter_listBugs length_listBugs
        deleteAllNonReference_def rows_of_def)
qed

theorem bulk_delete_rule_witness:
  "delete_all (Some [sample_row ''r1'' True None, sample_row ''b1'' False None,
                     sample_row ''r2'' True None, sample_row ''b2'' False (Some 70),
                     sample_row ''r3'' True None])
     = (End 204 (Some 3),
        Some [sample_row ''r1'' True None, sample_row ''r2'' True None, sample_row ''r3'' True None])
   \<and> delete_all (Some [sample_row ''r1'' True None, sample_row ''r2'' True None])
     = (Json 403 (Error ''all bugs are reference bugs; deletion aborted''),
        Some [sample_row ''r1'' True None, sample_row ''r2'' True None])"
proof -
  let ?five = "Some [sample_row ''r1'' True None, sample_row ''b1'' False None,
                     sample_row ''r2'' True None, sample_row ''b2'' False (Some 70),
                     sample_row ''r3'' True None]"
  let ?two = "Some [sample_row ''r1'' True None, sample_row ''r2'' True None]"
  have r: "reference (sample_row i ref ct) = ref" for i ref ct
    by (simp add: sample_row_def)
  have a: "delete_all ?five = (End 204 (Some 3),
        Some [sample_row ''r1'' True None, sample_row ''r2'' True None, sample_row ''r3'' True None])"
    using bulk_delete_rule [of ?five] by (simp add: rows_of_def r)
  have b: "delete_all ?two = (Json 403 (Error ''all bugs are reference bugs; deletion aborted''), ?two)"
    using bulk_delete_rule [of ?two] by (simp add: rows_of_def r)
  show ?thesis using a b by simp
qed


section \<open>The stored impact and likelihood\<close>





section \<open>The completion time over sequences of operations\<close>

text \<open>
  Claim C7, as the handlers have it. A new record has no \<open>completedAt\<close>, and is stored so.
  Completing an open record that is not a reference record sets its \<open>completedAt\<close> to the
  current time. An update that succeeds writes \<^verbatim>\<open>null\<close> when its body carries
  \<^verbatim>\<open>completedAt: null\<close>, and writes the number when the body carries one. Once the
  record with id \<open>i\<close> has its \<open>completedAt\<close> set, it stays set through every sequence of
  operations on the store in which no update of that record carries
  \<^verbatim>\<open>completedAt: null\<close> (and no create draws the id \<open>i\<close> again): completions, deletions,
  updates that leave \<open>completedAt\<close> out and updates that give it a number keep it set, as
  long as the record is there.
\<close>

theorem completedAt_stays_set:
  assumes "\<forall>op\<in>set ops. \<not> clears_completedAt i op \<and> \<not> creates_id i op"
      and "\<forall>r\<in>set (rows_of db). bug_id r = i \<longrightarrow> completedAt r \<noteq> None"
  shows "(\<forall>r\<in>set (rows_of (run toNum ops db)). bug_id r = i \<longrightarrow> completedAt r \<noteq> None)
       \<and> completedAt (newBug toNum uuid now b) = None
       \<and> (\<forall>d r. fst (post_bugs toNum uuid now b d) = Json 201 (BugBody r) \<longrightarrow>
             completedAt r = None \<and> snd (post_bugs toNum uuid now b d) = Some (rows_of d @ [r]))
       \<and> (\<forall>d j r. getBug j d = Some r \<and> \<not> reference r \<and> completedAt r = None \<longrightarrow>
             fst (complete_bug now j d) = Json 200 (BugBody (r\<lparr>completedAt := Some now\<rparr>))
           \<and> getBug j (snd (complete_bug now j d)) = Some (r\<lparr>completedAt := Some now\<rparr>))
       \<and> (\<forall>d j c r. fst (put_bug toNum j c d) = Json 200 (BugBody r) \<longrightarrow>
             getBug j (snd (put_bug toNum j c d)) = Some r
           \<and> (c ''completedAt'' = JNull \<longrightarrow> completedAt r = None)
           \<and> (\<forall>n. c ''completedAt'' = JNum n \<longrightarrow> completedAt r = Some n))"
proof (intro conjI allI impI)
  have "completed_inv i db" using assms(2) by (simp add: completed_inv_def)
  then have "completed_inv i (run toNum ops db)" using assms(1) by (rule inv_run)
  then show "\<forall>r\<in>set (rows_of (run toNum ops db)). bug_id r = i \<longrightarrow> completedAt r \<noteq> None"
    by (simp add: completed_inv_def)
next
  show "completedAt (newBug toNum uuid now b) = None"
    by (simp add: newBug_fields)
next
  fix d r assume a: "fst (post_bugs toNum uuid now b d) = Json 201 (BugBody r)"
  show "completedAt r = None"
    using post_bugs_created [OF a] by (simp add: newBug_fields)
  show "snd (post_bugs toNum uuid now b d) = Some (rows_of d @ [r])"
    using post_bugs_created [OF a] by simp
next
  fix d j r assume a: "getBug j d = Some r \<and> \<not> reference r \<and> completedAt r = None"
  then have g: "getBug j d = Some r" and nr: "\<not> reference r" and op: "\<not> ts_truthy (completedAt r)"
    by simp_all
  show "fst (complete_bug now j d) = Json 200 (BugBody (r\<lparr>completedAt := Some now\<rparr>))"
    using g nr op by (rule complete_bug_success)
  show "getBug j (snd (complete_bug now j d)) = Some (r\<lparr>completedAt := Some now\<rparr>)"
    using g nr op by (rule complete_bug_success)
next
  fix d j c r assume a: "fst (put_bug toNum j c d) = Json 200 (BugBody r)"
  then obtain existing where e: "r = write_fields (updated toNum c existing) existing"
      "getBug j (snd (put_bug toNum j c d)) = Some r"
    using put_bug_updated [OF a] by blast
  show "getBug j (snd (put_bug toNum j c d)) = Some r" by (rule e(2))
  show "c ''completedAt'' = JNull \<Longrightarrow> completedAt r = None"
    by (simp add: e(1) updated_fields)
next
  fix d j c r n
  assume a: "fst (put_bug toNum j c d) = Json 200 (BugBody r)" and n: "c ''completedAt'' = JNum n"
  obtain existing where e: "r = write_fields (updated toNum c existing) existing"
    using put_bug_updated [OF a] by blast
  show "completedAt r = Some n"
    by (simp add: e n updated_fields)
qed

theorem completedAt_stays_set_witness:
  "rows_of (run (\<lambda>s. NaN)
              [UpdateBug ''b1'' (obj [(''completedAt'', JNum 90), (''description'', JStr ''new'')]),
               CompleteBug 100 ''b2'',
               UpdateBug ''b1'' (obj [(''impact'', JNum 2)]),
               CreateBug ''b3'' 110 (obj [(''description'', JStr ''third'')]),
               DeleteBug ''b2'']
              (Some [sample_row ''b1'' False (Some 70), sample_row ''b2'' False None]))
     = [\<lparr> bug_id = ''b1'', ticket = None, description = ''new'', jiraLink = JNull,
          impact = Num 2, likelihood = Num 3, label = None,
          completedAt = Some 90, createdAt = 10, reference = False \<rparr>,
        newBug (\<lambda>s. NaN) ''b3'' 110 (obj [(''description'', JStr ''third'')])]
   \<and> completedAt (hd (rows_of (run (\<lambda>s. NaN)
           [UpdateBug ''b1'' (obj [(''completedAt'', JNum 90), (''description'', JStr ''new'')]),
            CompleteBug 100 ''b2'',
            UpdateBug ''b1'' (obj [(''impact'', JNum 2)]),
            CreateBug ''b3'' 110 (obj [(''description'', JStr ''third'')]),
            DeleteBug ''b2'']
           (Some [sample_row ''b1'' False (Some 70), sample_row ''b2'' False None])))) \<noteq> None
   \<and> getBug ''b2'' (snd (complete_bug 100 ''b2''
           (Some [sample_row ''b1'' False (Some 70), sample_row ''b2'' False None])))
     = Some (sample_row ''b2'' False (Some 100))
   \<and> getBug ''b1'' (snd (put_bug (\<lambda>s. NaN) ''b1'' (obj [(''completedAt'', JNum 90)])
           (Some [sample_row ''b1'' False (Some 70), sample_row ''b2'' False None])))
     = Some (sample_row ''b1'' False (Some 90))
   \<and> completedAt (newBug (\<lambda>s. NaN) ''b3'' 110 (obj [(''description'', JStr ''third'')])) = None"
proof -
  let ?ops = "[UpdateBug ''b1'' (obj [(''completedAt'', JNum 90), (''description'', JStr ''new'')]),
               CompleteBug 100 ''b2'',
               UpdateBug ''b1'' (obj [(''impact'', JNum 2)]),
               CreateBug ''b3'' 110 (obj [(''description'', JStr ''third'')]),
               DeleteBug ''b2'']"
  let ?db = "Some [sample_row ''b1'' False (Some 70), sample_row ''b2'' False None]"
  have ops: "\<forall>op\<in>set ?ops. \<not> clears_completedAt ''b1'' op \<and> \<not> creates_id ''b1'' op"
    by (simp add: obj_def)
  have db: "\<forall>r\<in>set (rows_of ?db). bug_id r = ''b1'' \<longrightarrow> completedAt r \<noteq> None"
    by (simp add: rows_of_def sample_row_def)
  note t = completedAt_stays_set [OF ops db, where toNum = "\<lambda>s. NaN" and uuid = "''b3''"
      and now = 100 and b = "obj [(''description'', JStr ''third'')]"]
  have rows: "rows_of (run (\<lambda>s. NaN) ?ops ?db)
     = [\<lparr> bug_id = ''b1'', ticket = None, description = ''new'', jiraLink = JNull,
          impact = Num 2, likelihood = Num 3, label = None,
          completedAt = Some 90, createdAt = 10, reference = False \<rparr>,
        newBug (\<lambda>s. NaN) ''b3'' 110 (obj [(''description'', JStr ''third'')])]"
    by code_simp
  have "\<forall>r\<in>set (rows_of (run (\<lambda>s. NaN) ?ops ?db)). bug_id r = ''b1'' \<longrightarrow> completedAt r \<noteq> None"
    using t by blast
  then have hd: "completedAt (hd (rows_of (run (\<lambda>s. NaN) ?ops ?db))) \<noteq> None"
    unfolding rows by simp
  have g2: "getBug ''b2'' ?db = Some (sample_row ''b2'' False None)"
    by code_simp
  have f2: "\<not> reference (sample_row ''b2'' False None)" "completedAt (sample_row ''b2'' False None) = None"
      "(sample_row ''b2'' False None)\<lparr>completedAt := Some 100\<rparr> = sample_row ''b2'' False (Some 100)"
    by (simp_all add: sample_row_def)
  have c: "getBug ''b2'' (snd (complete_bug 100 ''b2'' ?db)) = Some (sample_row ''b2'' False (Some 100))"
    using t [THEN conjunct2, THEN conjunct2, THEN conjunct2, THEN conjunct1] g2 f2 by metis
  have p: "fst (put_bug (\<lambda>s. NaN) ''b1'' (obj [(''completedAt'', JNum 90)]) ?db)
         = Json 200 (BugBody (sample_row ''b1'' False (Some 90)))"
    by code_simp
  have u: "getBug ''b1'' (snd (put_bug (\<lambda>s. NaN) ''b1'' (obj [(''completedAt'', JNum 90)]) ?db))
         = Some (sample_row ''b1'' False (Some 90))"
    using t [THEN conjunct2, THEN conjunct2, THEN conjunct2, THEN conjunct2] p by blast
  have n: "completedAt (newBug (\<lambda>s. NaN) ''b3'' 110 (obj [(''description'', JStr ''third'')])) = None"
    by (simp add: newBug_fields)
  show ?thesis using rows hd c u n by simp
qed

text \<open>
  The claim as it was stated lets nothing reset \<open>completedAt\<close>. The update handler accepts
  \<^verbatim>\<open>completedAt: null\<close> (its check lets \<^verbatim>\<open>null\<close> through) and writes it: a completed
  record is open again.
\<close>

theorem completedAt_reset_counterexample:
  "getBug ''a'' (run (\<lambda>s. NaN) [CreateBug ''a'' 1000 (obj [(''description'', JStr ''x'')]),
                      CompleteBug 2000 ''a''] (Some []))
     = Some \<lparr> bug_id = ''a'', ticket = None, description = ''x'', jiraLink = JNull,
              impact = Num 1, likelihood = Num 1, label = None,
              completedAt = Some 2000, createdAt = 1000, reference = False \<rparr>
   \<and> put_bug (\<lambda>s. NaN) ''a'' (obj [(''completedAt'', JNull)])
        (run (\<lambda>s. NaN) [CreateBug ''a'' 1000 (obj [(''description'', JStr ''x'')]),
              CompleteBug 2000 ''a''] (Some []))
     = (Json 200 (BugBody \<lparr> bug_id = ''a'', ticket = None, description = ''x'', jiraLink = JNull,
              impact = Num 1, likelihood = Num 1, label = None,
              completedAt = None, createdAt = 1000, reference = False \<rparr>),
        Some [\<lparr> bug_id = ''a'', ticket = None, description = ''x'', jiraLink = JNull,
              impact = Num 1, likelihood = Num 1, label = None,
              completedAt = None, createdAt = 1000, reference = False \<rparr>])"
  by code_simp


section \<open>The session gate\<close>





section \<open>View composition\<close>

lemma insert_by_desc:
  "insert_by (\<lambda>a b. BugRecord.impact b * BugRecord.likelihood b
                     - BugRecord.impact a * BugRecord.likelihood a) x ys
   = insort_key (\<lambda>b. - (BugRecord.impact b * BugRecord.likelihood b)) x ys"
  by (induction ys) auto

lemma array_sort_desc:
  "array_sort (\<lambda>a b. BugRecord.impact b * BugRecord.likelihood b
                      - BugRecord.impact a * BugRecord.likelihood a) xs
   = sort_key (\<lambda>b. - (BugRecord.impact b * BugRecord.likelihood b)) xs"
  by (induction xs) (simp_all add: array_sort_def insert_by_desc)

lemma sortedBugs_desc:
  "sortedBugs d SortScore Desc = sort_key (\<lambda>b. - (BugRecord.impact b * BugRecord.likelihood b)) d"
  by (simp add: sortedBugs_def Let_def array_sort_desc)

text \<open>
  Claim C9. With a label filter that is not empty, only records whose label is one of the
  selected labels are displayed; the empty filter leaves the status filter alone. Sorting
  the displayed records by score, descending, gives a sequence whose products of impact
  and likelihood never increase; it is a rearrangement of the displayed records, and the
  records of equal score keep the order they had.
\<close>

theorem view_composition:
  "(labelFilters \<noteq> [] \<longrightarrow>
      (\<forall>b\<in>set (displayedBugs bugs viewTab labelFilters).
          \<exists>l. BugRecord.label b = Some l \<and> l \<in> set labelFilters))
 \<and> displayedBugs bugs viewTab []
      = filter (\<lambda>b. if viewTab = TabOpen then \<not> ts_truthy (BugRecord.completedAt b)
                     else ts_truthy (BugRecord.completedAt b)) bugs
 \<and> sorted_wrt (\<lambda>a b. BugRecord.impact a * BugRecord.likelihood a
                      \<ge> BugRecord.impact b * BugRecord.likelihood b)
      (sortedBugs (displayedBugs bugs viewTab labelFilters) SortScore Desc)
 \<and> mset (sortedBugs (displayedBugs bugs viewTab labelFilters) SortScore Desc)
      = mset (displayedBugs bugs viewTab labelFilters)
 \<and> (\<forall>k. filter (\<lambda>b. BugRecord.impact b * BugRecord.likelihood b = k)
             (sortedBugs (displayedBugs bugs viewTab labelFilters) SortScore Desc)
        = filter (\<lambda>b. BugRecord.impact b * BugRecord.likelihood b = k)
             (displayedBugs bugs viewTab labelFilters))"
proof (intro conjI impI allI)
  assume "labelFilters \<noteq> []"
  then show "\<forall>b\<in>set (displayedBugs bugs viewTab labelFilters).
          \<exists>l. BugRecord.label b = Some l \<and> l \<in> set labelFilters"
    by (auto simp: displayedBugs_def Let_def split: option.splits)
next
  show "displayedBugs bugs viewTab []
      = filter (\<lambda>b. if viewTab = TabOpen then \<not> ts_truthy (BugRecord.completedAt b)
                     else ts_truthy (BugRecord.completedAt b)) bugs"
    by (simp add: displayedBugs_def Let_def)
next
  let ?d = "displayedBugs bugs viewTab labelFilters"
  let ?f = "\<lambda>b. - (BugRecord.impact b * BugRecord.likelihood b)"
  have "sorted (map ?f (sort_key ?f ?d))" by (rule sorted_sort_key)
  then show "sorted_wrt (\<lambda>a b. BugRecord.impact a * BugRecord.likelihood a
                      \<ge> BugRecord.impact b * BugRecord.likelihood b)
      (sortedBugs ?d SortScore Desc)"
    by (simp add: sortedBugs_desc sorted_map)
  show "mset (sortedBugs ?d SortScore Desc) = mset ?d"
    by (simp add: sortedBugs_desc)
  fix k
  have "filter (\<lambda>b. ?f b = - k) (sort_key ?f ?d) = filter (\<lambda>b. ?f b = - k) ?d"
    by (rule sort_key_stable)
  then show "filter (\<lambda>b. BugRecord.impact b * BugRecord.likelihood b = k) (sortedBugs ?d SortScore Desc)
        = filter (\<lambda>b. BugRecord.impact b * BugRecord.likelihood b = k) ?d"
    by (simp add: sortedBugs_desc)
qed

theorem view_composition_witness:
  "displayedBugs [sample_rec ''1'' 1 2 (Some ''TSO''), sample_rec ''2'' 5 5 (Some ''Betaalopdrachten''),
                  sample_rec ''3'' 4 3 (Some ''TSO''), sample_rec ''4'' 3 4 (Some ''TSO''),
                  sample_rec ''5'' 2 2 None] TabOpen [''TSO'']
     = [sample_rec ''1'' 1 2 (Some ''TSO''), sample_rec ''3'' 4 3 (Some ''TSO''),
        sample_rec ''4'' 3 4 (Some ''TSO'')]
   \<and> sortedBugs (displayedBugs
         [sample_rec ''1'' 1 2 (Some ''TSO''), sample_rec ''2'' 5 5 (Some ''Betaalopdrachten''),
          sample_rec ''3'' 4 3 (Some ''TSO''), sample_rec ''4'' 3 4 (Some ''TSO''),
          sample_rec ''5'' 2 2 None] TabOpen [''TSO'']) SortScore Desc
     = [sample_rec ''3'' 4 3 (Some ''TSO''), sample_rec ''4'' 3 4 (Some ''TSO''),
        sample_rec ''1'' 1 2 (Some ''TSO'')]
   \<and> sorted_wrt (\<lambda>a b. BugRecord.impact a * BugRecord.likelihood a
                        \<ge> BugRecord.impact b * BugRecord.likelihood b)
        [sample_rec ''3'' 4 3 (Some ''TSO''), sample_rec ''4'' 3 4 (Some ''TSO''),
         sample_rec ''1'' 1 2 (Some ''TSO'')]"
proof -
  let ?bugs = "[sample_rec ''1'' 1 2 (Some ''TSO''), sample_rec ''2'' 5 5 (Some ''Betaalopdrachten''),
                sample_rec ''3'' 4 3 (Some ''TSO''), sample_rec ''4'' 3 4 (Some ''TSO''),
                sample_rec ''5'' 2 2 None]"
  have d: "displayedBugs ?bugs TabOpen [''TSO'']
     = [sample_rec ''1'' 1 2 (Some ''TSO''), sample_rec ''3'' 4 3 (Some ''TSO''),
        sample_rec ''4'' 3 4 (Some ''TSO'')]"
    by code_simp
  have s: "sortedBugs (displayedBugs ?bugs TabOpen [''TSO'']) SortScore Desc
     = [sample_rec ''3'' 4 3 (Some ''TSO''), sample_rec ''4'' 3 4 (Some ''TSO''),
        sample_rec ''1'' 1 2 (Some ''TSO'')]"
    by code_simp
  have "sorted_wrt (\<lambda>a b. BugRecord.impact a * BugRecord.likelihood a
                        \<ge> BugRecord.impact b * BugRecord.likelihood b)
          (sortedBugs (displayedBugs ?bugs TabOpen [''TSO'']) SortScore Desc)"
    using view_composition [of "[''TSO'']" ?bugs TabOpen] by blast
  then show ?thesis unfolding s using d s by simp
qed

section \<open>The credential check of the login\<close>

text \<open>
  Claim C10. The expected user name and password are the values of \<^verbatim>\<open>APP_USERNAME\<close> and
  \<^verbatim>\<open>APP_PASSWORD\<close>, or \<^verbatim>\<open>undefined\<close> when the variable is not set. The login issues a
  token exactly when the submitted user name and password are strictly equal to these
  expected values, and answers 401 otherwise. When neither variable is set both expected
  values are \<^verbatim>\<open>undefined\<close>, so a request that carries neither a user name nor a password
  passes the check: it is issued a token, and that token opens the gate.
\<close>

theorem login_credential_check:
  "EXPECT_USER c = (case APP_USERNAME c of None \<Rightarrow> JUndefined | Some s \<Rightarrow> JStr s)
 \<and> EXPECT_PASS c = (case APP_PASSWORD c of None \<Rightarrow> JUndefined | Some s \<Rightarrow> JStr s)
 \<and> ((\<exists>t e. login c now b = Json 200 (TokenBody t e)) \<longleftrightarrow>
      b ''username'' = EXPECT_USER c \<and> b ''password'' = EXPECT_PASS c)
 \<and> (b ''username'' = EXPECT_USER c \<and> b ''password'' = EXPECT_PASS c \<longrightarrow>
      login c now b
        = Json 200 (TokenBody (jwt_sign (b ''username'') (JWT_SECRET c) (8 * 3600) now) (8 * 3600)))
 \<and> ((\<forall>t e. login c now b \<noteq> Json 200 (TokenBody t e)) \<longleftrightarrow>
      login c now b = Json 401 (Error ''invalid credentials''))
 \<and> (APP_USERNAME c = None \<and> APP_PASSWORD c = None
      \<and> b ''username'' = JUndefined \<and> b ''password'' = JUndefined \<longrightarrow>
        EXPECT_USER c = JUndefined \<and> EXPECT_PASS c = JUndefined
      \<and> login c now b = Json 200 (TokenBody (jwt_sign JUndefined (JWT_SECRET c) (8 * 3600) now) (8 * 3600))
      \<and> authMiddleware c now m p (Some (Bearer (jwt_sign JUndefined (JWT_SECRET c) (8 * 3600) now))))"
proof -
  have u: "EXPECT_USER c = (case APP_USERNAME c of None \<Rightarrow> JUndefined | Some s \<Rightarrow> JStr s)"
    by (cases "APP_USERNAME c") (simp_all add: EXPECT_USER_def)
  have p: "EXPECT_PASS c = (case APP_PASSWORD c of None \<Rightarrow> JUndefined | Some s \<Rightarrow> JStr s)"
    by (cases "APP_PASSWORD c") (simp_all add: EXPECT_PASS_def)
  have r: "((\<exists>t e. login c now b = Json 200 (TokenBody t e)) \<longleftrightarrow>
      b ''username'' = EXPECT_USER c \<and> b ''password'' = EXPECT_PASS c)
 \<and> (b ''username'' = EXPECT_USER c \<and> b ''password'' = EXPECT_PASS c \<longrightarrow>
      login c now b
        = Json 200 (TokenBody (jwt_sign (b ''username'') (JWT_SECRET c) (8 * 3600) now) (8 * 3600)))
 \<and> ((\<forall>t e. login c now b \<noteq> Json 200 (TokenBody t e)) \<longleftrightarrow>
      login c now b = Json 401 (Error ''invalid credentials''))
 \<and> (APP_USERNAME c = None \<and> APP_PASSWORD c = None
      \<and> b ''username'' = JUndefined \<and> b ''password'' = JUndefined \<longrightarrow>
        EXPECT_USER c = JUndefined \<and> EXPECT_PASS c = JUndefined
      \<and> login c now b = Json 200 (TokenBody (jwt_sign JUndefined (JWT_SECRET c) (8 * 3600) now) (8 * 3600))
      \<and> authMiddleware c now m p (Some (Bearer (jwt_sign JUndefined (JWT_SECRET c) (8 * 3600) now))))"
    by (simp add: login_def Let_def EXPECT_USER_def EXPECT_PASS_def authMiddleware_def jwt_sign_def)
  show ?thesis using u p r by blast
qed

theorem login_credential_check_witness:
  "login \<lparr>APP_USERNAME = None, APP_PASSWORD = None, APP_JWT_SECRET = None\<rparr> 5000 (obj [])
     = Json 200 (TokenBody (Token JUndefined 28805 ''dev-insecure-secret'') 28800)
   \<and> authMiddleware \<lparr>APP_USERNAME = None, APP_PASSWORD = None, APP_JWT_SECRET = None\<rparr> 5000
        ''GET'' ''/bugs'' (Some (Bearer (Token JUndefined 28805 ''dev-insecure-secret'')))
   \<and> EXPECT_USER \<lparr>APP_USERNAME = Some ''admin'', APP_PASSWORD = Some ''pw'', APP_JWT_SECRET = None\<rparr>
     = JStr ''admin''
   \<and> EXPECT_PASS \<lparr>APP_USERNAME = Some ''admin'', APP_PASSWORD = Some ''pw'', APP_JWT_SECRET = None\<rparr>
     = JStr ''pw''
   \<and> login \<lparr>APP_USERNAME = Some ''admin'', APP_PASSWORD = Some ''pw'', APP_JWT_SECRET = None\<rparr> 5000
        (obj [(''username'', JStr ''admin''), (''password'', JStr ''pw'')])
     = Json 200 (TokenBody (Token (JStr ''admin'') 28805 ''dev-insecure-secret'') 28800)
   \<and> login \<lparr>APP_USERNAME = Some ''admin'', APP_PASSWORD = Some ''pw'', APP_JWT_SECRET = None\<rparr> 5000
        (obj [(''username'', JStr ''admin''), (''password'', JStr ''no'')])
     = Json 401 (Error ''invalid credentials'')
   \<and> login \<lparr>APP_USERNAME = Some ''admin'', APP_PASSWORD = Some ''pw'', APP_JWT_SECRET = None\<rparr> 5000
        (obj [(''username'', JStr ''root''), (''password'', JStr ''pw'')])
     = Json 401 (Error ''invalid credentials'')
   \<and> login \<lparr>APP_USERNAME = Some ''admin'', APP_PASSWORD = Some ''pw'', APP_JWT_SECRET = None\<rparr> 5000
        (obj [])
     = Json 401 (Error ''invalid credentials'')"
proof -
  let ?c = "\<lparr>APP_USERNAME = None, APP_PASSWORD = None, APP_JWT_SECRET = None\<rparr>"
  let ?d = "\<lparr>APP_USERNAME = Some ''admin'', APP_PASSWORD = Some ''pw'', APP_JWT_SECRET = None\<rparr>"
  let ?ok = "obj [(''username'', JStr ''admin''), (''password'', JStr ''pw'')]"
  let ?pw = "obj [(''username'', JStr ''admin''), (''password'', JStr ''no'')]"
  let ?un = "obj [(''username'', JStr ''root''), (''password'', JStr ''pw'')]"
  have s: "jwt_sign JUndefined (JWT_SECRET ?c) (8 * 3600) 5000 = Token JUndefined 28805 ''dev-insecure-secret''"
    "jwt_sign (JStr ''admin'') (JWT_SECRET ?d) (8 * 3600) 5000
       = Token (JStr ''admin'') 28805 ''dev-insecure-secret''"
    by (simp_all add: jwt_sign_def JWT_SECRET_def)
  have a: "login ?c 5000 (obj []) = Json 200 (TokenBody (Token JUndefined 28805 ''dev-insecure-secret'') 28800)
      \<and> authMiddleware ?c 5000 ''GET'' ''/bugs'' (Some (Bearer (Token JUndefined 28805 ''dev-insecure-secret'')))"
    using login_credential_check [of ?c 5000 "obj []" "''GET''" "''/bugs''"] s
    by (simp add: obj_def)
  have e: "EXPECT_USER ?d = JStr ''admin''" "EXPECT_PASS ?d = JStr ''pw''"
    using login_credential_check [of ?d] by simp_all
  have f: "?ok ''username'' = JStr ''admin''" "?ok ''password'' = JStr ''pw''"
      "?pw ''password'' = JStr ''no''" "?un ''username'' = JStr ''root''"
      "obj [] ''username'' = JUndefined"
    by (simp_all add: obj_def)
  have ok: "login ?d 5000 ?ok = Json 200 (TokenBody (Token (JStr ''admin'') 28805 ''dev-insecure-secret'') 28800)"
    using login_credential_check [of ?d 5000 ?ok, THEN conjunct2, THEN conjunct2, THEN conjunct2,
        THEN conjunct1] e f s
    by simp
  have "\<not> (?pw ''username'' = EXPECT_USER ?d \<and> ?pw ''password'' = EXPECT_PASS ?d)"
    by (simp add: e f)
  then have pw: "login ?d 5000 ?pw = Json 401 (Error ''invalid credentials'')"
    using login_credential_check [of ?d 5000 ?pw] by blast
  have "\<not> (?un ''username'' = EXPECT_USER ?d \<and> ?un ''password'' = EXPECT_PASS ?d)"
    by (simp add: e f)
  then have un: "login ?d 5000 ?un = Json 401 (Error ''invalid credentials'')"
    using login_credential_check [of ?d 5000 ?un] by blast
  have "\<not> (obj [] ''username'' = EXPECT_USER ?d \<and> obj [] ''password'' = EXPECT_PASS ?d)"
    by (simp add: e f)
  then have em: "login ?d 5000 (obj []) = Json 401 (Error ''invalid credentials'')"
    using login_credential_check [of ?d 5000 "obj []"] by blast
  show ?thesis using a e ok pw un em by simp
qed


end
